theory Spec2Isabelle
  imports Complex_Main "HOL-Library.AList" "HOL-Library.Sublist"
begin

section \<open>Values, errors and the flattener object\<close>

text \<open>
  The values the flattener handles are what \<^verbatim>\<open>json.load\<close> returns: \<^verbatim>\<open>None\<close>, booleans,
  unbounded integers, floats, strings, lists and dictionaries with string keys. A
  dictionary is an association list in insertion order; a parsed dictionary has no
  duplicate key, and a lookup is \<open>map_of\<close>. A float carries its exact value as a
  rational (NaN and the infinities are not represented).
\<close>

datatype json =
    JNull
  | JBool bool
  | JInt int
  | JFloat rat
  | JStr string
  | JList "json list"
  | JObj "(string \<times> json) list"

type_synonym pydict = "(string \<times> json) list"

text \<open>The exceptions the code can raise; every one of them derives from \<^verbatim>\<open>Exception\<close>.\<close>

datatype py_error =
    KeyError
  | TypeError
  | AttributeError
  | ValueError
  | OverflowError
  | ZeroDivisionError
  | JSONDecodeError
  | UnicodeDecodeError
  | OSError

fun bind_err :: "py_error + 'a \<Rightarrow> ('a \<Rightarrow> py_error + 'b) \<Rightarrow> py_error + 'b" where
  "bind_err (Inl e) f = Inl e"
| "bind_err (Inr x) f = f x"

text \<open>\<^verbatim>\<open>JSONFlattener.__init__\<close>: the object's four attributes.\<close>

record JSONFlattener =
  separator :: string
  max_depth :: int
  required_keys :: "string list"
  transcript_schema :: bool

definition init :: "string \<Rightarrow> int \<Rightarrow> JSONFlattener" where
  "init sep depth =
     \<lparr>separator = sep, max_depth = depth,
      required_keys = [''id'', ''metadata''], transcript_schema = True\<rparr>"

subsection \<open>Built-in operations on values\<close>

text \<open>\<^verbatim>\<open>bool(v)\<close>, as \<^verbatim>\<open>not v\<close> uses it.\<close>

fun truthy :: "json \<Rightarrow> bool" where
  "truthy JNull = False"
| "truthy (JBool b) = b"
| "truthy (JInt i) = (i \<noteq> 0)"
| "truthy (JFloat r) = (r \<noteq> 0)"
| "truthy (JStr s) = (s \<noteq> [])"
| "truthy (JList xs) = (xs \<noteq> [])"
| "truthy (JObj kvs) = (kvs \<noteq> [])"

text \<open>
  \<^verbatim>\<open>key in obj\<close> for a string key: key membership on a dictionary, element membership on
  a list, substring test on a string, \<^verbatim>\<open>TypeError\<close> on anything else.
\<close>

fun py_contains :: "json \<Rightarrow> string \<Rightarrow> py_error + bool" where
  "py_contains (JObj kvs) k = Inr (k \<in> fst ` set kvs)"
| "py_contains (JList xs) k = Inr (JStr k \<in> set xs)"
| "py_contains (JStr s) k = Inr (sublist k s)"
| "py_contains _ k = Inl TypeError"

text \<open>\<^verbatim>\<open>obj.get(key, default)\<close>: only a dictionary has the method.\<close>

fun py_get :: "json \<Rightarrow> string \<Rightarrow> json \<Rightarrow> py_error + json" where
  "py_get (JObj kvs) k d = Inr (case map_of kvs k of None \<Rightarrow> d | Some v \<Rightarrow> v)"
| "py_get _ k d = Inl AttributeError"

text \<open>\<^verbatim>\<open>d[key]\<close> on a dictionary.\<close>

definition getitem :: "pydict \<Rightarrow> string \<Rightarrow> py_error + json" where
  "getitem kvs k = (case map_of kvs k of None \<Rightarrow> Inl KeyError | Some v \<Rightarrow> Inr v)"

text \<open>\<^verbatim>\<open>obj[key]\<close> with a string key on any value.\<close>

fun py_getitem :: "json \<Rightarrow> string \<Rightarrow> py_error + json" where
  "py_getitem (JObj kvs) k = getitem kvs k"
| "py_getitem _ k = Inl TypeError"

fun is_dict :: "json \<Rightarrow> bool" where
  "is_dict (JObj kvs) = True"
| "is_dict _ = False"

fun is_list :: "json \<Rightarrow> bool" where
  "is_list (JList xs) = True"
| "is_list _ = False"

section \<open>validate_document_structure\<close>

text \<open>
  The validator's log lines are part of its contract. Each \<^verbatim>\<open>logger\<close> call of the method
  is one event, carrying the values its message interpolates.
\<close>

datatype log_level = INFO | WARNING | ERROR

datatype log_event =
    MissingRequiredKeys "string list"
  | DocumentIdRequired
  | MetadataNotDict
  | DetectedTranscriptSchema
  | ChunksNotList
  | ChunkNotDict nat
  | ChunkMissingFields nat "string list"
  | ValidationException py_error

fun level :: "log_event \<Rightarrow> log_level" where
  "level (MissingRequiredKeys ks) = WARNING"
| "level DetectedTranscriptSchema = INFO"
| "level _ = ERROR"

text \<open>\<^verbatim>\<open>[key for key in keys if key not in obj]\<close>\<close>

fun missing_from :: "string list \<Rightarrow> json \<Rightarrow> py_error + string list" where
  "missing_from [] obj = Inr []"
| "missing_from (k # ks) obj =
     bind_err (py_contains obj k) (\<lambda>present.
     bind_err (missing_from ks obj) (\<lambda>rest.
     Inr (if present then rest else k # rest)))"

definition required_chunk_fields :: "string list" where
  "required_chunk_fields = [''speaker'', ''start'', ''end'', ''text'']"

text \<open>
  The loop over \<^verbatim>\<open>enumerate(document['transcript_chunks'])\<close>, from index \<open>i\<close> on. It yields
  the events logged and \<open>True\<close> when the loop runs to its end.
\<close>

fun validate_chunks :: "nat \<Rightarrow> json list \<Rightarrow> log_event list \<times> (py_error + bool)" where
  "validate_chunks i [] = ([], Inr True)"
| "validate_chunks i (chunk # rest) =
     (if \<not> is_dict chunk then ([ChunkNotDict i], Inr False)
      else (case missing_from required_chunk_fields chunk of
              Inl e \<Rightarrow> ([], Inl e)
            | Inr missing_chunk_fields \<Rightarrow>
               (if missing_chunk_fields \<noteq> []
                then ([ChunkMissingFields i missing_chunk_fields], Inr False)
                else validate_chunks (Suc i) rest)))"

text \<open>The body of the \<^verbatim>\<open>try\<close> block: the events logged and the value returned or the exception raised.\<close>

definition validate_body :: "JSONFlattener \<Rightarrow> json \<Rightarrow> log_event list \<times> (py_error + bool)" where
  "validate_body self document =
     (case missing_from (required_keys self) document of
        Inl e \<Rightarrow> ([], Inl e)
      | Inr missing_keys \<Rightarrow>
         (if missing_keys \<noteq> [] then ([MissingRequiredKeys missing_keys], Inr False)
          else (case py_get document ''id'' JNull of
            Inl e \<Rightarrow> ([], Inl e)
          | Inr doc_id \<Rightarrow>
             (if \<not> truthy doc_id then ([DocumentIdRequired], Inr False)
              else (case py_get document ''metadata'' (JObj []) of
                Inl e \<Rightarrow> ([], Inl e)
              | Inr metadata \<Rightarrow>
                 (if \<not> is_dict metadata then ([MetadataNotDict], Inr False)
                  else (case py_contains document ''transcript_chunks'' of
                    Inl e \<Rightarrow> ([], Inl e)
                  | Inr present \<Rightarrow>
                     (if \<not> present then ([], Inr True)
                      else (case py_getitem document ''transcript_chunks'' of
                        Inl e \<Rightarrow> ([DetectedTranscriptSchema], Inl e)
                      | Inr chunks \<Rightarrow>
                         (case chunks of
                            JList cs \<Rightarrow>
                              (case validate_chunks 0 cs of
                                 (evs, r) \<Rightarrow> (DetectedTranscriptSchema # evs, r))
                          | _ \<Rightarrow> ([DetectedTranscriptSchema, ChunksNotList], Inr False)))))))))))"

text \<open>
  The whole method: \<^verbatim>\<open>except Exception\<close> logs the exception and returns \<open>False\<close>.
\<close>

definition validate_trace :: "JSONFlattener \<Rightarrow> json \<Rightarrow> log_event list \<times> bool" where
  "validate_trace self document =
     (case validate_body self document of
        (evs, Inl e) \<Rightarrow> (evs @ [ValidationException e], False)
      | (evs, Inr b) \<Rightarrow> (evs, b))"

definition validate_document_structure :: "JSONFlattener \<Rightarrow> json \<Rightarrow> bool" where
  "validate_document_structure self document = snd (validate_trace self document)"

text \<open>A failure is reported when the log holds a warning or an error.\<close>

definition reported :: "log_event list \<Rightarrow> bool" where
  "reported evs = (\<exists>ev \<in> set evs. level ev = WARNING \<or> level ev = ERROR)"

section \<open>Strings and the standard library\<close>

text \<open>
  A \<open>char\<close> stands for a code point below 256. \<^verbatim>\<open>str(n)\<close> of an integer is its decimal
  numeral.
\<close>

fun str_nat :: "nat \<Rightarrow> string" where
  "str_nat n =
     (if n < 10 then [''0123456789'' ! n]
      else str_nat (n div 10) @ [''0123456789'' ! (n mod 10)])"

declare str_nat.simps [simp del]

definition str_int :: "int \<Rightarrow> string" where
  "str_int i = (if i < 0 then ''-'' @ str_nat (nat (- i)) else str_nat (nat i))"

text \<open>\<^verbatim>\<open>c.isspace()\<close> and \<^verbatim>\<open>c.isalpha()\<close> on the code points below 256.\<close>

definition isspace :: "char \<Rightarrow> bool" where
  "isspace c =
     (let n = (of_char c :: nat)
      in (9 \<le> n \<and> n \<le> 13) \<or> (28 \<le> n \<and> n \<le> 32) \<or> n = 133 \<or> n = 160)"

definition isalpha :: "char \<Rightarrow> bool" where
  "isalpha c =
     (let n = (of_char c :: nat)
      in (65 \<le> n \<and> n \<le> 90) \<or> (97 \<le> n \<and> n \<le> 122) \<or> n = 170 \<or> n = 181 \<or> n = 186 \<or>
         (192 \<le> n \<and> n \<le> 214) \<or> (216 \<le> n \<and> n \<le> 246) \<or> (248 \<le> n \<and> n \<le> 255))"

text \<open>\<^verbatim>\<open>s.rstrip(chars)\<close>, \<^verbatim>\<open>s.strip()\<close> and \<^verbatim>\<open>s.replace(old, new)\<close> for single characters.\<close>

definition rstrip :: "string \<Rightarrow> string \<Rightarrow> string" where
  "rstrip s chars = rev (dropWhile (\<lambda>c. c \<in> set chars) (rev s))"

definition strip :: "string \<Rightarrow> string" where
  "strip s = rev (dropWhile isspace (rev (dropWhile isspace s)))"

definition replace :: "string \<Rightarrow> char \<Rightarrow> char \<Rightarrow> string" where
  "replace s old new = map (\<lambda>c. if c = old then new else c) s"

text \<open>The two string methods on an arbitrary value: anything but a string has no such attribute.\<close>

fun py_rstrip :: "json \<Rightarrow> string \<Rightarrow> py_error + string" where
  "py_rstrip (JStr s) chars = Inr (rstrip s chars)"
| "py_rstrip _ chars = Inl AttributeError"

fun py_strip :: "json \<Rightarrow> py_error + string" where
  "py_strip (JStr s) = Inr (strip s)"
| "py_strip _ = Inl AttributeError"

text \<open>
  What the code takes from Python's standard library and does not define itself is a
  parameter of the model, for a type \<open>'d\<close> of \<^verbatim>\<open>datetime\<close> values:
  \<^item> \<open>fromisoformat s\<close> is \<^verbatim>\<open>datetime.fromisoformat(s)\<close>, which raises on a malformed string;
  \<^item> \<open>add_seconds d x\<close> is \<^verbatim>\<open>d + timedelta(seconds=x)\<close>, which raises when \<open>x\<close> is not a
    number or the result is out of range;
  \<^item> \<open>isoformat d\<close> is \<^verbatim>\<open>d.isoformat()\<close>;
  \<^item> \<open>str_other v\<close> is \<^verbatim>\<open>str(v)\<close> for a float, a list or a dictionary.
\<close>

record 'd pylib =
  fromisoformat :: "string \<Rightarrow> py_error + 'd"
  add_seconds :: "'d \<Rightarrow> json \<Rightarrow> py_error + 'd"
  isoformat :: "'d \<Rightarrow> string"
  str_other :: "json \<Rightarrow> string"

text \<open>\<^verbatim>\<open>str(v)\<close>, also what an f-string does with \<^verbatim>\<open>{v}\<close>.\<close>

fun py_str :: "'d pylib \<Rightarrow> json \<Rightarrow> string" where
  "py_str L JNull = ''None''"
| "py_str L (JBool b) = (if b then ''True'' else ''False'')"
| "py_str L (JInt i) = str_int i"
| "py_str L (JStr s) = s"
| "py_str L v = str_other L v"

section \<open>flatten_json and _sanitize_key\<close>

definition sanitize_key :: "string \<Rightarrow> string" where
  "sanitize_key key =
     (let sanitized = replace (replace (replace key CHR '' '' CHR ''_'') CHR ''-'' CHR ''_'') CHR ''.'' CHR ''_''
      in if sanitized \<noteq> [] \<and> \<not> isalpha (hd sanitized) \<and> hd sanitized \<noteq> CHR ''_''
         then ''field_'' @ sanitized
         else sanitized)"

text \<open>
  The inner function \<^verbatim>\<open>_flatten\<close> writes into the dictionary \<^verbatim>\<open>flattened\<close> of the enclosing
  call; here the dictionary is passed in and returned. \<open>flatten_items\<close> is its loop over
  \<^verbatim>\<open>obj.items()\<close> and \<open>flatten_elems\<close> its loop over \<^verbatim>\<open>enumerate(obj)\<close>, from index \<open>i\<close> on.
  An assignment \<^verbatim>\<open>flattened[k] = v\<close> is \<open>AList.update\<close>: an old key keeps its place, a new
  one goes to the end.
\<close>

function flatten_rec ::
      "'d pylib \<Rightarrow> JSONFlattener \<Rightarrow> json \<Rightarrow> string \<Rightarrow> nat \<Rightarrow> (string \<times> string) list
         \<Rightarrow> (string \<times> string) list"
  and flatten_items ::
      "'d pylib \<Rightarrow> JSONFlattener \<Rightarrow> (string \<times> json) list \<Rightarrow> string \<Rightarrow> nat \<Rightarrow> (string \<times> string) list
         \<Rightarrow> (string \<times> string) list"
  and flatten_elems ::
      "'d pylib \<Rightarrow> JSONFlattener \<Rightarrow> json list \<Rightarrow> string \<Rightarrow> nat \<Rightarrow> nat \<Rightarrow> (string \<times> string) list
         \<Rightarrow> (string \<times> string) list"
where
  "flatten_rec L self obj current_prefix depth flattened =
     (if int depth > max_depth self then flattened
      else (case obj of
              JObj kvs \<Rightarrow> flatten_items L self kvs current_prefix depth flattened
            | JList xs \<Rightarrow> flatten_elems L self xs current_prefix depth 0 flattened
            | JNull \<Rightarrow> AList.update current_prefix [] flattened
            | _ \<Rightarrow> AList.update current_prefix (py_str L obj) flattened))"
| "flatten_items L self [] current_prefix depth flattened = flattened"
| "flatten_items L self ((key, val) # rest) current_prefix depth flattened =
     (let sanitized_key = sanitize_key key;
          new_key = (if current_prefix \<noteq> [] then current_prefix @ sanitized_key else sanitized_key)
      in flatten_items L self rest current_prefix depth
           (flatten_rec L self val new_key (depth + 1) flattened))"
| "flatten_elems L self [] current_prefix depth i flattened = flattened"
| "flatten_elems L self (item # rest) current_prefix depth i flattened =
     (let new_key = (if current_prefix \<noteq> [] then current_prefix @ ''['' @ str_nat i @ '']''
                     else ''['' @ str_nat i @ '']'')
      in flatten_elems L self rest current_prefix depth (Suc i)
           (flatten_rec L self item new_key (depth + 1) flattened))"

  by pat_completeness auto
termination
  by (relation "measure (\<lambda>x. case x of
          Inl (L, self, obj, r) \<Rightarrow> size obj
        | Inr (Inl (L, self, kvs, r)) \<Rightarrow> size_list (size_prod (\<lambda>k. 0) size) kvs
        | Inr (Inr (L, self, xs, r)) \<Rightarrow> size_list size xs)") auto

definition flatten_json :: "'d pylib \<Rightarrow> JSONFlattener \<Rightarrow> json \<Rightarrow> string \<Rightarrow> (string \<times> string) list" where
  "flatten_json L self nested_json prefix_arg = flatten_rec L self nested_json prefix_arg 0 []"

section \<open>flatten_for_ai_search\<close>

text \<open>An output record is a dictionary from field names to values.\<close>

text \<open>
  The metadata fields a dictionary literal reads one after the other: \<open>getitems meta ks\<close>
  is the entries \<^verbatim>\<open>k: meta[k]\<close> for the keys \<open>ks\<close> in order, or the first exception.
\<close>

fun getitems :: "json \<Rightarrow> string list \<Rightarrow> py_error + pydict" where
  "getitems meta [] = Inr []"
| "getitems meta (k # ks) =
     bind_err (py_getitem meta k) (\<lambda>v.
     bind_err (getitems meta ks) (\<lambda>rest.
     Inr ((k, v) # rest)))"

definition chunk_meta_fields :: "string list" where
  "chunk_meta_fields =
     [''transaction_key'', ''request_id'', ''sha256'', ''created'', ''duration'', ''channels'',
      ''Filename'', ''videolink'']"

definition file_meta_fields :: "string list" where
  "file_meta_fields = chunk_meta_fields @ [''flattened_transcript'']"

text \<open>The dictionary literal \<^verbatim>\<open>file_doc\<close>.\<close>

definition file_doc :: "json \<Rightarrow> json \<Rightarrow> py_error + pydict" where
  "file_doc raw meta =
     bind_err (py_getitem raw ''id'') (\<lambda>raw_id.
     bind_err (getitems meta file_meta_fields) (\<lambda>fields.
     Inr ([(''@search.action'', JStr ''upload''), (''id'', raw_id)] @ fields)))"

text \<open>
  One pass of the loop over \<^verbatim>\<open>enumerate(raw["transcript_chunks"])\<close>: the dictionary appended
  for the chunk at index \<open>i\<close>, its values evaluated in the order of the source.
\<close>

definition chunk_doc :: "'d pylib \<Rightarrow> json \<Rightarrow> json \<Rightarrow> 'd \<Rightarrow> nat \<Rightarrow> json \<Rightarrow> py_error + pydict" where
  "chunk_doc L raw meta base i chunk =
     bind_err (py_getitem chunk ''start'') (\<lambda>start.
     bind_err (py_getitem chunk ''end'') (\<lambda>end.
     bind_err (py_getitem raw ''id'') (\<lambda>raw_id.
     bind_err (getitems meta chunk_meta_fields) (\<lambda>fields.
     bind_err (py_getitem chunk ''speaker'') (\<lambda>speaker.
     bind_err (add_seconds L base start) (\<lambda>start_at.
     bind_err (add_seconds L base end) (\<lambda>end_at.
     bind_err (py_getitem chunk ''text'') (\<lambda>text.
     bind_err (py_strip text) (\<lambda>stripped.
     Inr ([(''@search.action'', JStr ''upload''),
           (''id'', JStr (py_str L raw_id @ ''_'' @ str_nat i)),
           (''parentDocId'', raw_id)]
          @ fields @
          [(''speaker'', speaker),
           (''start_offset'', start),
           (''end_offset'', end),
           (''start_at'', JStr (isoformat L start_at @ ''Z'')),
           (''end_at'', JStr (isoformat L end_at @ ''Z'')),
           (''text'', JStr stripped)]))))))))))"

fun chunk_loop :: "'d pylib \<Rightarrow> json \<Rightarrow> json \<Rightarrow> 'd \<Rightarrow> nat \<Rightarrow> json list \<Rightarrow> py_error + pydict list" where
  "chunk_loop L raw meta base i [] = Inr []"
| "chunk_loop L raw meta base i (chunk # rest) =
     bind_err (chunk_doc L raw meta base i chunk) (\<lambda>doc.
     bind_err (chunk_loop L raw meta base (Suc i) rest) (\<lambda>docs.
     Inr (doc # docs)))"

text \<open>
  The body of the \<^verbatim>\<open>try\<close> block. After a successful validation \<^verbatim>\<open>raw["transcript_chunks"]\<close>,
  when present, is a list; the loop over any other value is not reached and is written
  as a \<^verbatim>\<open>TypeError\<close>.
\<close>

definition flatten_body :: "'d pylib \<Rightarrow> JSONFlattener \<Rightarrow> json \<Rightarrow> py_error + pydict list option" where
  "flatten_body L self raw =
     (if \<not> validate_document_structure self raw then Inr None
      else
        bind_err (py_getitem raw ''metadata'') (\<lambda>meta.
        bind_err (py_getitem meta ''created'') (\<lambda>created.
        bind_err (py_rstrip created ''Z'') (\<lambda>stripped.
        bind_err (fromisoformat L stripped) (\<lambda>base.
        bind_err (file_doc raw meta) (\<lambda>fdoc.
        bind_err (py_getitem raw ''transcript_chunks'') (\<lambda>chunks.
        (case chunks of
           JList cs \<Rightarrow>
             bind_err (chunk_loop L raw meta base 0 cs) (\<lambda>docs.
             Inr (Some (fdoc # docs)))
         | _ \<Rightarrow> Inl TypeError))))))))"

text \<open>The whole method: \<^verbatim>\<open>except Exception\<close> logs and returns \<^verbatim>\<open>None\<close>.\<close>

definition flatten_for_ai_search :: "'d pylib \<Rightarrow> JSONFlattener \<Rightarrow> json \<Rightarrow> pydict list option" where
  "flatten_for_ai_search L self raw =
     (case flatten_body L self raw of Inl e \<Rightarrow> None | Inr docs \<Rightarrow> docs)"

section \<open>A fixture\<close>

text \<open>
  The standard library tabulated at one instant: a \<^verbatim>\<open>datetime\<close> is the number of seconds
  after 2024-01-01T00:00:00, within the first minute. \<^verbatim>\<open>fromisoformat\<close> knows that one
  timestamp, \<^verbatim>\<open>timedelta\<close> takes integers, and whatever lies outside the table raises.
\<close>

definition fixture_lib :: "nat pylib" where
  "fixture_lib =
     \<lparr>fromisoformat = (\<lambda>s. if s = ''2024-01-01T00:00:00'' then Inr 0 else Inl ValueError),
      add_seconds = (\<lambda>d x. case x of
                        JInt n \<Rightarrow> if 0 \<le> n \<and> d + nat n < 60 then Inr (d + nat n) else Inl OverflowError
                      | _ \<Rightarrow> Inl TypeError),
      isoformat = (\<lambda>d. ''2024-01-01T00:00:'' @ (if d < 10 then ''0'' else []) @ str_nat d),
      str_other = (\<lambda>v. [])\<rparr>"

definition fixture_metadata :: pydict where
  "fixture_metadata =
     [(''transaction_key'', JStr ''tk-1''),
      (''request_id'', JStr ''rq-1''),
      (''sha256'', JStr ''ab12''),
      (''created'', JStr ''2024-01-01T00:00:00Z''),
      (''duration'', JInt 12),
      (''channels'', JInt 1),
      (''Filename'', JStr ''call.wav''),
      (''videolink'', JStr ''http://v/1''),
      (''flattened_transcript'', JStr ''hello there general'')]"

definition fixture_chunks :: "json list" where
  "fixture_chunks =
     [JObj [(''speaker'', JInt 0), (''start'', JInt 0), (''end'', JInt 5), (''text'', JStr '' hello there '')],
      JObj [(''speaker'', JInt 1), (''start'', JInt 5), (''end'', JInt 12), (''text'', JStr ''general'')]]"

definition fixture_document :: json where
  "fixture_document =
     JObj [(''id'', JStr ''doc1''), (''metadata'', JObj fixture_metadata),
           (''transcript_chunks'', JList fixture_chunks)]"

section \<open>The input shape\<close>

text \<open>
  The shape of a \<^verbatim>\<open>RawTranscriptDocument\<close>, for a given library: a dictionary with a string
  \<^verbatim>\<open>id\<close>, a \<^verbatim>\<open>metadata\<close> dictionary that has the nine fields and whose \<^verbatim>\<open>created\<close> is a string
  the library parses once its trailing \<^verbatim>\<open>Z\<close>s are stripped, and a \<^verbatim>\<open>transcript_chunks\<close> list
  of dictionaries, each with a \<^verbatim>\<open>speaker\<close>, a text \<^verbatim>\<open>text\<close>, and \<^verbatim>\<open>start\<close> and \<^verbatim>\<open>end\<close> offsets
  the library can add to the parsed timestamp.
\<close>

definition succeeds :: "py_error + 'a \<Rightarrow> bool" where
  "succeeds r = (case r of Inl e \<Rightarrow> False | Inr x \<Rightarrow> True)"

definition Chunk :: "'d pylib \<Rightarrow> 'd \<Rightarrow> json \<Rightarrow> bool" where
  "Chunk L base c =
     (case c of
        JObj ckvs \<Rightarrow>
          (case (map_of ckvs ''speaker'', map_of ckvs ''start'', map_of ckvs ''end'', map_of ckvs ''text'') of
             (Some speaker, Some start, Some end, Some (JStr text)) \<Rightarrow>
               succeeds (add_seconds L base start) \<and> succeeds (add_seconds L base end)
           | _ \<Rightarrow> False)
      | _ \<Rightarrow> False)"

definition RawTranscriptDocument :: "'d pylib \<Rightarrow> json \<Rightarrow> bool" where
  "RawTranscriptDocument L raw =
     (case raw of
        JObj kvs \<Rightarrow>
          (case (map_of kvs ''id'', map_of kvs ''metadata'', map_of kvs ''transcript_chunks'') of
             (Some (JStr file_id), Some (JObj meta), Some (JList cs)) \<Rightarrow>
               list_all (\<lambda>k. map_of meta k \<noteq> None) file_meta_fields \<and>
               (case map_of meta ''created'' of
                  Some (JStr created) \<Rightarrow>
                    (case fromisoformat L (rstrip created ''Z'') of
                       Inr base \<Rightarrow> list_all (Chunk L base) cs
                     | Inl e \<Rightarrow> False)
                | _ \<Rightarrow> False)
           | _ \<Rightarrow> False)
      | _ \<Rightarrow> False)"

text \<open>The parts of a document, for the statements: its chunks, its id and a metadata field.\<close>

definition chunks_of :: "json \<Rightarrow> json list" where
  "chunks_of raw = (case py_getitem raw ''transcript_chunks'' of Inr (JList cs) \<Rightarrow> cs | _ \<Rightarrow> [])"

definition field_of :: "json \<Rightarrow> string \<Rightarrow> json" where
  "field_of obj k = (case py_getitem obj k of Inr v \<Rightarrow> v | Inl e \<Rightarrow> JNull)"

text \<open>The fixture with one more metadata field than the nine the record types name.\<close>

definition fixture_document_extra :: json where
  "fixture_document_extra =
     JObj [(''id'', JStr ''doc1''),
           (''metadata'', JObj (fixture_metadata @ [(''language'', JStr ''en'')])),
           (''transcript_chunks'', JList fixture_chunks)]"

text \<open>
  \<open>with_created c raw\<close> is the document \<open>raw\<close> with \<^verbatim>\<open>metadata.created\<close> set to the string \<open>c\<close>
  and nothing else changed.
\<close>

definition with_created :: "string \<Rightarrow> json \<Rightarrow> json" where
  "with_created c raw =
     (case raw of
        JObj kvs \<Rightarrow>
          (case map_of kvs ''metadata'' of
             Some (JObj m) \<Rightarrow>
               JObj (AList.update ''metadata'' (JObj (AList.update ''created'' (JStr c) m)) kvs)
           | _ \<Rightarrow> raw)
      | _ \<Rightarrow> raw)"

text \<open>The two timestamps of an output record.\<close>

definition timestamps :: "pydict \<Rightarrow> json option \<times> json option" where
  "timestamps d = (map_of d ''start_at'', map_of d ''end_at'')"

section \<open>batch_flatten_json\<close>

text \<open>
  The file system is a parameter: a path names no file, or a file whose content
  \<^verbatim>\<open>json.load\<close> parses or fails on, once read as UTF-8 and once read as Latin-1. The driver
  reads a file as UTF-8 and, on \<^verbatim>\<open>UnicodeDecodeError\<close>, again as Latin-1.
\<close>

datatype read_result = Parsed json | Raises py_error

record json_file =
  utf8 :: read_result
  latin1 :: read_result

definition load :: "json_file \<Rightarrow> read_result" where
  "load f = (case utf8 f of Raises UnicodeDecodeError \<Rightarrow> latin1 f | r \<Rightarrow> r)"

text \<open>The three local variables of the driver.\<close>

record batch_state =
  flattened_documents :: "pydict list"
  processed_count :: nat
  error_count :: nat

definition count_error :: "batch_state \<Rightarrow> batch_state" where
  "count_error st = st\<lparr>error_count := error_count st + 1\<rparr>"

definition count_processed :: "batch_state \<Rightarrow> batch_state" where
  "count_processed st = st\<lparr>processed_count := processed_count st + 1\<rparr>"

text \<open>
  One pass of the loop over \<^verbatim>\<open>json_files\<close>. Both \<^verbatim>\<open>except\<close> clauses count an error, so every
  exception of the pass has the same effect.
\<close>

definition process_file ::
    "'d pylib \<Rightarrow> JSONFlattener \<Rightarrow> (string \<Rightarrow> json_file option) \<Rightarrow> bool \<Rightarrow> batch_state \<Rightarrow> string
       \<Rightarrow> batch_state" where
  "process_file L self fs validate_only st file_path =
     (case fs file_path of
        None \<Rightarrow> count_error st
      | Some f \<Rightarrow>
         (case load f of
            Raises e \<Rightarrow> count_error st
          | Parsed document_json \<Rightarrow>
             (if \<not> validate_document_structure self document_json then count_error st
              else if validate_only then count_processed st
              else (case flatten_for_ai_search L self document_json of
                      None \<Rightarrow> count_error st
                    | Some chunk_docs \<Rightarrow>
                       (if chunk_docs \<noteq> []
                        then count_processed
                               (st\<lparr>flattened_documents := flattened_documents st @ chunk_docs\<rparr>)
                        else count_error st)))))"

definition batch_run ::
    "'d pylib \<Rightarrow> JSONFlattener \<Rightarrow> (string \<Rightarrow> json_file option) \<Rightarrow> string list \<Rightarrow> bool \<Rightarrow> batch_state" where
  "batch_run L self fs json_files validate_only =
     foldl (process_file L self fs validate_only)
       \<lparr>flattened_documents = [], processed_count = 0, error_count = 0\<rparr> json_files"

text \<open>
  After the loop the driver logs the counters and the success rate
  \<^verbatim>\<open>processed_count/(processed_count + error_count)*100\<close>, outside every \<^verbatim>\<open>try\<close>, and returns
  the accumulated records.
\<close>

definition batch_flatten_json ::
    "'d pylib \<Rightarrow> JSONFlattener \<Rightarrow> (string \<Rightarrow> json_file option) \<Rightarrow> string list \<Rightarrow> bool
       \<Rightarrow> py_error + pydict list" where
  "batch_flatten_json L self fs json_files validate_only =
     (let st = batch_run L self fs json_files validate_only
      in if processed_count st + error_count st = 0 then Inl ZeroDivisionError
         else Inr (flattened_documents st))"

text \<open>
  What one path contributes: the records of its document, or \<open>None\<close> when the file is
  missing, does not load, or its document does not flatten.
\<close>

definition file_records ::
    "'d pylib \<Rightarrow> JSONFlattener \<Rightarrow> (string \<Rightarrow> json_file option) \<Rightarrow> string \<Rightarrow> pydict list option" where
  "file_records L self fs file_path =
     (case fs file_path of
        None \<Rightarrow> None
      | Some f \<Rightarrow> (case load f of Raises e \<Rightarrow> None | Parsed d \<Rightarrow> flatten_for_ai_search L self d))"

text \<open>A file system with the fixture and with a document that has no \<^verbatim>\<open>metadata\<close>.\<close>

definition fixture_fs :: "string \<Rightarrow> json_file option" where
  "fixture_fs p =
     (if p = ''good.json'' then Some \<lparr>utf8 = Parsed fixture_document, latin1 = Parsed fixture_document\<rparr>
      else if p = ''bad.json''
        then Some \<lparr>utf8 = Parsed (JObj [(''id'', JStr ''doc2'')]),
                    latin1 = Parsed (JObj [(''id'', JStr ''doc2'')])\<rparr>
      else None)"

section \<open>get_document_statistics\<close>

text \<open>
  Numbers: \<^verbatim>\<open>bool\<close> is a subclass of \<^verbatim>\<open>int\<close>. An operation on two integers is exact; with a
  float operand the result is a float, computed here on the exact values, which is what
  Python computes whenever the result is representable without rounding.
\<close>

fun num_val :: "json \<Rightarrow> rat option" where
  "num_val (JBool b) = Some (if b then 1 else 0)"
| "num_val (JInt i) = Some (of_int i)"
| "num_val (JFloat r) = Some r"
| "num_val _ = None"

fun int_val :: "json \<Rightarrow> int option" where
  "int_val (JBool b) = Some (if b then 1 else 0)"
| "int_val (JInt i) = Some i"
| "int_val _ = None"

text \<open>\<^verbatim>\<open>a - b\<close>, \<^verbatim>\<open>a + b\<close> on numbers and \<^verbatim>\<open>a / n\<close> for a positive count \<open>n\<close>.\<close>

definition py_sub :: "json \<Rightarrow> json \<Rightarrow> py_error + json" where
  "py_sub a b =
     (case (int_val a, int_val b) of
        (Some x, Some y) \<Rightarrow> Inr (JInt (x - y))
      | _ \<Rightarrow> (case (num_val a, num_val b) of
                (Some x, Some y) \<Rightarrow> Inr (JFloat (x - y))
              | _ \<Rightarrow> Inl TypeError))"

definition py_add :: "json \<Rightarrow> json \<Rightarrow> py_error + json" where
  "py_add a b =
     (case (int_val a, int_val b) of
        (Some x, Some y) \<Rightarrow> Inr (JInt (x + y))
      | _ \<Rightarrow> (case (num_val a, num_val b) of
                (Some x, Some y) \<Rightarrow> Inr (JFloat (x + y))
              | _ \<Rightarrow> Inl TypeError))"

definition py_truediv :: "json \<Rightarrow> nat \<Rightarrow> py_error + json" where
  "py_truediv a n =
     (case num_val a of
        Some x \<Rightarrow> if n = 0 then Inl ZeroDivisionError else Inr (JFloat (x / of_nat n))
      | None \<Rightarrow> Inl TypeError)"

text \<open>\<^verbatim>\<open>len(v)\<close>\<close>

fun py_len :: "json \<Rightarrow> py_error + nat" where
  "py_len (JStr s) = Inr (length s)"
| "py_len (JList xs) = Inr (length xs)"
| "py_len (JObj kvs) = Inr (length kvs)"
| "py_len _ = Inl TypeError"

text \<open>
  Membership in a \<^verbatim>\<open>set\<close>: a list or a dictionary is unhashable; numbers are equal when
  their values are, whatever their types.
\<close>

datatype hashkey = HNone | HNum rat | HStr string

fun py_hash :: "json \<Rightarrow> py_error + hashkey" where
  "py_hash JNull = Inr HNone"
| "py_hash (JStr s) = Inr (HStr s)"
| "py_hash (JList xs) = Inl TypeError"
| "py_hash (JObj kvs) = Inl TypeError"
| "py_hash v = Inr (HNum (the (num_val v)))"

text \<open>\<^verbatim>\<open>set(vs)\<close>, as the list of its distinct members.\<close>

fun py_set :: "json list \<Rightarrow> py_error + hashkey list" where
  "py_set [] = Inr []"
| "py_set (v # vs) =
     bind_err (py_hash v) (\<lambda>h.
     bind_err (py_set vs) (\<lambda>hs.
     Inr (List.insert h hs)))"

text \<open>\<^verbatim>\<open>doc.get(key, default)\<close> on a record.\<close>

definition dict_get :: "pydict \<Rightarrow> string \<Rightarrow> json \<Rightarrow> json" where
  "dict_get doc k d = (case map_of doc k of None \<Rightarrow> d | Some v \<Rightarrow> v)"

text \<open>\<^verbatim>\<open>sum(len(doc.get('text', '')) for doc in chunk_docs)\<close>\<close>

fun total_text :: "pydict list \<Rightarrow> py_error + nat" where
  "total_text [] = Inr 0"
| "total_text (doc # docs) =
     bind_err (py_len (dict_get doc ''text'' (JStr []))) (\<lambda>n.
     bind_err (total_text docs) (\<lambda>m.
     Inr (n + m)))"

text \<open>The loop that adds \<^verbatim>\<open>end - start\<close> of every chunk record to \<^verbatim>\<open>total_duration\<close>.\<close>

fun add_durations :: "json \<Rightarrow> pydict list \<Rightarrow> py_error + json" where
  "add_durations total_duration [] = Inr total_duration"
| "add_durations total_duration (doc # docs) =
     bind_err (py_sub (dict_get doc ''end_offset'' (JInt 0)) (dict_get doc ''start_offset'' (JInt 0)))
       (\<lambda>d.
     bind_err (py_add total_duration d) (\<lambda>total.
     add_durations total docs))"

definition statistics_body :: "pydict list \<Rightarrow> py_error + pydict" where
  "statistics_body flat_documents =
     (if flat_documents = [] then Inr [(''total_documents'', JInt 0)]
      else
        let file_docs = filter (\<lambda>doc. ''flattened_transcript'' \<in> fst ` set doc) flat_documents;
            chunk_docs = filter (\<lambda>doc. ''parentDocId'' \<in> fst ` set doc) flat_documents
        in
        bind_err (py_set (map (\<lambda>doc. dict_get doc ''parentDocId'' (JStr [])) chunk_docs)) (\<lambda>parent_docs.
        bind_err (total_text chunk_docs) (\<lambda>total_text_length.
        bind_err (py_set (map (\<lambda>doc. dict_get doc ''speaker'' (JStr [])) chunk_docs)) (\<lambda>speakers.
        bind_err (add_durations (JInt 0) chunk_docs) (\<lambda>total_duration.
        bind_err (if chunk_docs \<noteq> [] then py_truediv total_duration (length chunk_docs)
                  else Inr (JInt 0)) (\<lambda>avg_duration.
        Inr [(''total_documents'', JInt (int (length flat_documents))),
             (''file_documents'', JInt (int (length file_docs))),
             (''chunk_documents'', JInt (int (length chunk_docs))),
             (''unique_parent_docs'', JInt (int (length parent_docs))),
             (''total_text_length'', JInt (int total_text_length)),
             (''unique_speakers'', JInt (int (length speakers))),
             (''avg_chunk_duration'', avg_duration),
             (''total_duration'', total_duration)]))))))"

text \<open>The whole method: \<^verbatim>\<open>except Exception\<close> logs and returns the empty dictionary.\<close>

definition get_document_statistics :: "pydict list \<Rightarrow> pydict" where
  "get_document_statistics flat_documents =
     (case statistics_body flat_documents of Inl e \<Rightarrow> [] | Inr stats \<Rightarrow> stats)"

text \<open>
  The two kinds of output record, as the statistics tell them apart and as the data model
  types them: a file record has \<^verbatim>\<open>flattened_transcript\<close> and no \<^verbatim>\<open>parentDocId\<close>; a chunk
  record has a string \<^verbatim>\<open>parentDocId\<close>, no \<^verbatim>\<open>flattened_transcript\<close>, an integer \<^verbatim>\<open>speaker\<close> and
  a string \<^verbatim>\<open>text\<close>. \<open>offsets\<close> reads the values of a record's two offsets.
\<close>

definition FileDocument :: "pydict \<Rightarrow> bool" where
  "FileDocument doc =
     (''flattened_transcript'' \<in> fst ` set doc \<and> ''parentDocId'' \<notin> fst ` set doc)"

definition ChunkDocument :: "pydict \<Rightarrow> bool" where
  "ChunkDocument doc =
     ((case map_of doc ''parentDocId'' of Some (JStr parent) \<Rightarrow> True | _ \<Rightarrow> False) \<and>
      map_of doc ''flattened_transcript'' = None \<and>
      (case map_of doc ''speaker'' of Some (JInt speaker) \<Rightarrow> True | _ \<Rightarrow> False) \<and>
      (case map_of doc ''text'' of Some (JStr t) \<Rightarrow> True | _ \<Rightarrow> False))"

definition offsets :: "pydict \<Rightarrow> (rat \<times> rat) option" where
  "offsets doc =
     (case (map_of doc ''start_offset'', map_of doc ''end_offset'') of
        (Some s, Some e) \<Rightarrow>
          (case (num_val s, num_val e) of (Some x, Some y) \<Rightarrow> Some (x, y) | _ \<Rightarrow> None)
      | _ \<Rightarrow> None)"

section \<open>Properties of the validator\<close>

lemma missing_from_dict:
  "missing_from ks (JObj kvs) = Inr (filter (\<lambda>k. k \<notin> fst ` set kvs) ks)"
  by (induction ks) auto

lemma validate_chunks_result:
  "snd (validate_chunks i cs) =
     Inr (\<forall>c \<in> set cs. \<exists>ckvs. c = JObj ckvs \<and> set required_chunk_fields \<subseteq> fst ` set ckvs)"
proof (induction cs arbitrary: i)
  case Nil
  show ?case by simp
next
  case (Cons c cs)
  show ?case
  proof (cases c)
    case (JObj ckvs)
    then show ?thesis using Cons.IH [of "Suc i"]
      by (auto simp: missing_from_dict filter_empty_conv)
  qed (simp_all)
qed

lemma validate_chunks_reported:
  "snd (validate_chunks i cs) = Inr False \<Longrightarrow> reported (fst (validate_chunks i cs))"
proof (induction cs arbitrary: i)
  case Nil
  then show ?case by simp
next
  case (Cons c cs)
  then show ?case
    by (cases c) (auto simp: missing_from_dict reported_def split: if_splits)
qed

lemma validate_non_dict:
  "\<not> is_dict d \<Longrightarrow> validate_trace self d = (evs, b) \<Longrightarrow> \<not> b \<and> reported evs"
  by (cases d; cases "missing_from (required_keys self) d")
     (auto simp: validate_trace_def validate_body_def reported_def split: if_splits)


lemma mem_keys_iff: "k \<in> fst ` set kvs \<longleftrightarrow> map_of kvs k \<noteq> None"
  by (simp add: map_of_eq_None_iff)

lemma validate_body_dict:
  "validate_body (init sep md) (JObj kvs) =
     (case map_of kvs ''id'' of
        None \<Rightarrow> ([MissingRequiredKeys (filter (\<lambda>k. k \<notin> fst ` set kvs) [''id'', ''metadata''])], Inr False)
      | Some v \<Rightarrow>
         (case map_of kvs ''metadata'' of
            None \<Rightarrow> ([MissingRequiredKeys [''metadata'']], Inr False)
          | Some m \<Rightarrow>
              if \<not> truthy v then ([DocumentIdRequired], Inr False)
              else if \<not> is_dict m then ([MetadataNotDict], Inr False)
              else (case map_of kvs ''transcript_chunks'' of
                      None \<Rightarrow> ([], Inr True)
                    | Some (JList cs) \<Rightarrow>
                        (DetectedTranscriptSchema # fst (validate_chunks 0 cs), snd (validate_chunks 0 cs))
                    | Some _ \<Rightarrow> ([DetectedTranscriptSchema, ChunksNotList], Inr False))))"
  by (auto simp: validate_body_def init_def missing_from_dict mem_keys_iff getitem_def
           split: option.splits json.splits prod.splits)

lemma validate_dict_iff:
  "validate_document_structure (init sep md) (JObj kvs) \<longleftrightarrow>
     (\<exists>v. map_of kvs ''id'' = Some v \<and> truthy v) \<and>
     (\<exists>m. map_of kvs ''metadata'' = Some (JObj m)) \<and>
     (case map_of kvs ''transcript_chunks'' of
        None \<Rightarrow> True
      | Some (JList cs) \<Rightarrow>
          (\<forall>c \<in> set cs. \<exists>ckvs. c = JObj ckvs \<and> set required_chunk_fields \<subseteq> fst ` set ckvs)
      | Some _ \<Rightarrow> False)"
  unfolding validate_document_structure_def validate_trace_def validate_body_dict
  by (auto simp: validate_chunks_result split: option.splits json.splits elim: is_dict.elims)

lemma validate_False_reported:
  "validate_trace (init sep md) d = (evs, False) \<Longrightarrow> reported evs"
proof (cases "is_dict d")
  case False
  assume "validate_trace (init sep md) d = (evs, False)"
  with False show ?thesis using validate_non_dict by blast
next
  case True
  assume a: "validate_trace (init sep md) d = (evs, False)"
  from True obtain kvs where d: "d = JObj kvs" by (cases d) auto
  have chunks: "snd (validate_chunks 0 cs) = Inr False \<Longrightarrow> reported (DetectedTranscriptSchema # fst (validate_chunks 0 cs))" for cs
    using validate_chunks_reported [of 0 cs] by (auto simp: reported_def)
  show ?thesis using a chunks unfolding d validate_trace_def validate_body_dict
    by (auto simp: reported_def split: option.splits json.splits sum.splits if_splits)
qed

text \<open>
  Claim C5. \<^verbatim>\<open>validate_document_structure\<close> returns \<open>False\<close>, after logging a warning or an
  error, for a document without the top-level key \<^verbatim>\<open>id\<close>, for a document without the
  top-level key \<^verbatim>\<open>metadata\<close>, for a document whose \<^verbatim>\<open>transcript_chunks\<close> is not a list, and
  for a document whose \<^verbatim>\<open>transcript_chunks\<close> list holds a chunk without one of \<^verbatim>\<open>speaker\<close>,
  \<^verbatim>\<open>start\<close>, \<^verbatim>\<open>end\<close>, \<^verbatim>\<open>text\<close>. It raises nothing: on a value that is not a dictionary,
  where the body raises \<^verbatim>\<open>TypeError\<close> or \<^verbatim>\<open>AttributeError\<close>, the handler logs the exception
  and the method returns \<open>False\<close>.
\<close>

theorem validate_rejects_malformed:
  "(''id'' \<notin> fst ` set ka \<longrightarrow>
      \<not> validate_document_structure (init sep md) (JObj ka) \<and>
      reported (fst (validate_trace (init sep md) (JObj ka)))) \<and>
   (''metadata'' \<notin> fst ` set kb \<longrightarrow>
      \<not> validate_document_structure (init sep md) (JObj kb) \<and>
      reported (fst (validate_trace (init sep md) (JObj kb)))) \<and>
   (map_of kc ''transcript_chunks'' = Some v \<and> \<not> is_list v \<longrightarrow>
      \<not> validate_document_structure (init sep md) (JObj kc) \<and>
      reported (fst (validate_trace (init sep md) (JObj kc)))) \<and>
   (map_of kd ''transcript_chunks'' = Some (JList cs) \<and> JObj ckvs \<in> set cs \<and>
    f \<in> set required_chunk_fields \<and> f \<notin> fst ` set ckvs \<longrightarrow>
      \<not> validate_document_structure (init sep md) (JObj kd) \<and>
      reported (fst (validate_trace (init sep md) (JObj kd)))) \<and>
   (\<not> is_dict d \<longrightarrow>
      \<not> validate_document_structure (init sep md) d \<and>
      reported (fst (validate_trace (init sep md) d)))"
proof -
  have rep: "\<not> validate_document_structure (init sep md) x \<Longrightarrow>
             reported (fst (validate_trace (init sep md) x))" for x
    using validate_False_reported [of sep md x "fst (validate_trace (init sep md) x)"]
    by (simp add: validate_document_structure_def prod_eq_iff)
  have a: "''id'' \<notin> fst ` set ka \<Longrightarrow> \<not> validate_document_structure (init sep md) (JObj ka)"
    by (auto simp: validate_dict_iff mem_keys_iff)
  have b: "''metadata'' \<notin> fst ` set kb \<Longrightarrow> \<not> validate_document_structure (init sep md) (JObj kb)"
    by (auto simp: validate_dict_iff mem_keys_iff)
  have c: "map_of kc ''transcript_chunks'' = Some v \<Longrightarrow> \<not> is_list v \<Longrightarrow>
           \<not> validate_document_structure (init sep md) (JObj kc)"
    by (cases v) (auto simp: validate_dict_iff)
  have d: "map_of kd ''transcript_chunks'' = Some (JList cs) \<Longrightarrow> JObj ckvs \<in> set cs \<Longrightarrow>
           f \<in> set required_chunk_fields \<Longrightarrow> f \<notin> fst ` set ckvs \<Longrightarrow>
           \<not> validate_document_structure (init sep md) (JObj kd)"
    by (fastforce simp: validate_dict_iff)
  have e: "\<not> is_dict d \<Longrightarrow> \<not> validate_document_structure (init sep md) d"
    using validate_non_dict [of d "init sep md"]
    by (simp add: validate_document_structure_def prod_eq_iff)
  show ?thesis using a b c d e rep by blast
qed

theorem validate_rejects_malformed_witness:
  "(''id'' \<notin> fst ` set [(''metadata'', JObj [])] \<and>
      \<not> validate_document_structure (init ''_'' 10) (JObj [(''metadata'', JObj [])])) \<and>
   (''metadata'' \<notin> fst ` set [(''id'', JStr ''doc1'')] \<and>
      \<not> validate_document_structure (init ''_'' 10) (JObj [(''id'', JStr ''doc1'')])) \<and>
   (map_of [(''id'', JStr ''doc1''), (''metadata'', JObj []), (''transcript_chunks'', JStr ''none'')]
        ''transcript_chunks'' = Some (JStr ''none'') \<and> \<not> is_list (JStr ''none'') \<and>
      \<not> validate_document_structure (init ''_'' 10)
          (JObj [(''id'', JStr ''doc1''), (''metadata'', JObj []), (''transcript_chunks'', JStr ''none'')])) \<and>
   (map_of [(''id'', JStr ''doc1''), (''metadata'', JObj []),
            (''transcript_chunks'', JList [JObj [(''speaker'', JInt 0), (''start'', JInt 0), (''end'', JInt 5)]])]
        ''transcript_chunks''
      = Some (JList [JObj [(''speaker'', JInt 0), (''start'', JInt 0), (''end'', JInt 5)]]) \<and>
    JObj [(''speaker'', JInt 0), (''start'', JInt 0), (''end'', JInt 5)]
      \<in> set [JObj [(''speaker'', JInt 0), (''start'', JInt 0), (''end'', JInt 5)]] \<and>
    ''text'' \<in> set required_chunk_fields \<and>
    ''text'' \<notin> fst ` set [(''speaker'', JInt 0), (''start'', JInt 0), (''end'', JInt 5)] \<and>
      \<not> validate_document_structure (init ''_'' 10)
          (JObj [(''id'', JStr ''doc1''), (''metadata'', JObj []),
                 (''transcript_chunks'', JList [JObj [(''speaker'', JInt 0), (''start'', JInt 0), (''end'', JInt 5)]])])) \<and>
   (\<not> is_dict (JList [JStr ''id'', JStr ''metadata'']) \<and>
      \<not> validate_document_structure (init ''_'' 10) (JList [JStr ''id'', JStr ''metadata'']))"
  using validate_rejects_malformed
    [where ka = "[(''metadata'', JObj [])]"
       and kb = "[(''id'', JStr ''doc1'')]"
       and kc = "[(''id'', JStr ''doc1''), (''metadata'', JObj []), (''transcript_chunks'', JStr ''none'')]"
       and v = "JStr ''none''"
       and kd = "[(''id'', JStr ''doc1''), (''metadata'', JObj []),
                  (''transcript_chunks'', JList [JObj [(''speaker'', JInt 0), (''start'', JInt 0), (''end'', JInt 5)]])]"
       and cs = "[JObj [(''speaker'', JInt 0), (''start'', JInt 0), (''end'', JInt 5)]]"
       and ckvs = "[(''speaker'', JInt 0), (''start'', JInt 0), (''end'', JInt 5)]"
       and f = "''text''"
       and d = "JList [JStr ''id'', JStr ''metadata'']"
       and sep = "''_''" and md = 10]
  by (simp add: required_chunk_fields_def)

section \<open>Properties of flatten_for_ai_search\<close>

lemma getitems_dict:
  "getitems (JObj m) ks =
     (if list_all (\<lambda>k. map_of m k \<noteq> None) ks then Inr (map (\<lambda>k. (k, the (map_of m k))) ks)
      else Inl KeyError)"
  by (induction ks) (auto simp: getitem_def split: option.splits)

lemma bind_err_Inr_iff: "bind_err m f = Inr y \<longleftrightarrow> (\<exists>x. m = Inr x \<and> f x = Inr y)"
  by (cases m) auto

lemma succeeds_bind_err: "succeeds (bind_err m f) \<longleftrightarrow> (\<exists>x. m = Inr x \<and> succeeds (f x))"
  by (cases m) (auto simp: succeeds_def)

lemma succeeds_iff: "succeeds r \<longleftrightarrow> (\<exists>x. r = Inr x)"
  by (cases r) (auto simp: succeeds_def)

lemma chunk_loop_length:
  "chunk_loop L raw meta base i cs = Inr docs \<Longrightarrow> length docs = length cs"
  by (induction cs arbitrary: i docs) (auto simp: bind_err_Inr_iff)

lemma chunk_loop_nth:
  "chunk_loop L raw meta base i cs = Inr docs \<Longrightarrow> j < length cs \<Longrightarrow>
     chunk_doc L raw meta base (i + j) (cs ! j) = Inr (docs ! j)"
proof (induction cs arbitrary: i j docs)
  case Nil
  then show ?case by simp
next
  case (Cons c cs)
  from Cons.prems(1) obtain d ds where d: "chunk_doc L raw meta base i c = Inr d"
    and ds: "chunk_loop L raw meta base (Suc i) cs = Inr ds" and docs: "docs = d # ds"
    by (auto simp: bind_err_Inr_iff)
  show ?case
  proof (cases j)
    case 0
    then show ?thesis using d docs by simp
  next
    case (Suc k)
    then have "k < length cs" using Cons.prems(2) by simp
    from Cons.IH [OF ds this] show ?thesis using Suc docs by simp
  qed
qed

lemma chunk_loop_succeeds:
  "(\<And>c i. c \<in> set cs \<Longrightarrow> succeeds (chunk_doc L raw meta base i c)) \<Longrightarrow>
     succeeds (chunk_loop L raw meta base i cs)"
proof (induction cs arbitrary: i)
  case Nil
  show ?case by (simp add: succeeds_def)
next
  case (Cons c cs)
  have "succeeds (chunk_doc L raw meta base i c)" using Cons.prems by simp
  moreover have "succeeds (chunk_loop L raw meta base (Suc i) cs)"
    using Cons.IH Cons.prems by simp
  ultimately show ?case by (auto simp: succeeds_iff)
qed


lemma py_rstrip_Inr_iff: "py_rstrip v cs = Inr s \<longleftrightarrow> (\<exists>t. v = JStr t \<and> s = rstrip t cs)"
  by (cases v) auto

lemma py_strip_Inr_iff: "py_strip v = Inr s \<longleftrightarrow> (\<exists>t. v = JStr t \<and> s = strip t)"
  by (cases v) auto

lemma flatten_SomeI:
  "validate_document_structure S raw \<Longrightarrow> py_getitem raw ''metadata'' = Inr meta \<Longrightarrow>
   py_getitem meta ''created'' = Inr (JStr created) \<Longrightarrow>
   fromisoformat L (rstrip created ''Z'') = Inr base \<Longrightarrow> file_doc raw meta = Inr fdoc \<Longrightarrow>
   py_getitem raw ''transcript_chunks'' = Inr (JList cs) \<Longrightarrow>
   chunk_loop L raw meta base 0 cs = Inr cdocs \<Longrightarrow>
   flatten_for_ai_search L S raw = Some (fdoc # cdocs)"
  by (simp add: flatten_for_ai_search_def flatten_body_def)

lemma flatten_SomeD:
  assumes "flatten_for_ai_search L S raw = Some docs"
  shows "validate_document_structure S raw \<and>
     (\<exists>meta created base fdoc cs cdocs.
        py_getitem raw ''metadata'' = Inr meta \<and>
        py_getitem meta ''created'' = Inr (JStr created) \<and>
        fromisoformat L (rstrip created ''Z'') = Inr base \<and>
        file_doc raw meta = Inr fdoc \<and>
        py_getitem raw ''transcript_chunks'' = Inr (JList cs) \<and>
        chunk_loop L raw meta base 0 cs = Inr cdocs \<and>
        docs = fdoc # cdocs)"
proof -
  have v: "validate_document_structure S raw"
    using assms by (auto simp: flatten_for_ai_search_def flatten_body_def split: if_splits)
  then have body: "flatten_body L S raw = Inr (Some docs)"
    using assms by (auto simp: flatten_for_ai_search_def split: sum.splits)
  then obtain meta created stripped base fdoc chunks where
      m: "py_getitem raw ''metadata'' = Inr meta"
    and c: "py_getitem meta ''created'' = Inr created"
    and s: "py_rstrip created ''Z'' = Inr stripped"
    and b: "fromisoformat L stripped = Inr base"
    and f: "file_doc raw meta = Inr fdoc"
    and ch: "py_getitem raw ''transcript_chunks'' = Inr chunks"
    and rest: "(case chunks of
           JList cs \<Rightarrow>
             bind_err (chunk_loop L raw meta base 0 cs) (\<lambda>docs.
             Inr (Some (fdoc # docs)))
         | _ \<Rightarrow> Inl TypeError) = Inr (Some docs)"
    using v unfolding flatten_body_def by (auto simp: bind_err_Inr_iff)
  from rest obtain cs cdocs where "chunks = JList cs"
    and "chunk_loop L raw meta base 0 cs = Inr cdocs" and "docs = fdoc # cdocs"
    by (cases chunks) (auto simp: bind_err_Inr_iff)
  moreover from s obtain t where "created = JStr t" and "stripped = rstrip t ''Z''"
    by (auto simp: py_rstrip_Inr_iff)
  ultimately show ?thesis using v m c b f ch by blast
qed


lemma getitems_keys: "getitems meta ks = Inr fs \<Longrightarrow> map fst fs = ks"
  by (induction ks arbitrary: fs) (auto simp: bind_err_Inr_iff)

lemma getitems_absent:
  assumes "getitems meta ks = Inr fs" and "k \<notin> set ks"
  shows "map_of fs k = None"
proof -
  have "fst ` set fs = set ks" using getitems_keys [OF assms(1)] by (metis set_map)
  then show ?thesis using assms(2) by (simp add: map_of_eq_None_iff)
qed

lemma getitems_present:
  "getitems meta ks = Inr fs \<Longrightarrow> k \<in> set ks \<Longrightarrow> map_of fs k = Some (field_of meta k)"
  by (induction ks arbitrary: fs) (auto simp: bind_err_Inr_iff field_of_def)

lemma field_of_Inr: "py_getitem obj k = Inr v \<Longrightarrow> field_of obj k = v"
  by (simp add: field_of_def)

lemma chunk_doc_fields:
  assumes "chunk_doc L raw meta base i c = Inr d"
  shows "map_of d ''id'' = Some (JStr (py_str L (field_of raw ''id'') @ ''_'' @ str_nat i))"
    and "map_of d ''parentDocId'' = Some (field_of raw ''id'')"
    and "map_of d ''flattened_transcript'' = None"
    and "map_of d ''speaker'' = Some (field_of c ''speaker'')"
    and "map_of d ''start_offset'' = Some (field_of c ''start'')"
    and "map_of d ''end_offset'' = Some (field_of c ''end'')"
    and "\<exists>t. add_seconds L base (field_of c ''start'') = Inr t \<and>
             map_of d ''start_at'' = Some (JStr (isoformat L t @ ''Z''))"
    and "\<exists>t. add_seconds L base (field_of c ''end'') = Inr t \<and>
             map_of d ''end_at'' = Some (JStr (isoformat L t @ ''Z''))"
    and "\<exists>t. field_of c ''text'' = JStr t \<and> map_of d ''text'' = Some (JStr (strip t))"
proof -
  from assms obtain start en raw_id flds speaker t1 t2 ctext where
      st: "py_getitem c ''start'' = Inr start" and en: "py_getitem c ''end'' = Inr en"
    and id: "py_getitem raw ''id'' = Inr raw_id"
    and fs: "getitems meta chunk_meta_fields = Inr flds"
    and sp: "py_getitem c ''speaker'' = Inr speaker"
    and t1: "add_seconds L base start = Inr t1" and t2: "add_seconds L base en = Inr t2"
    and tx: "py_getitem c ''text'' = Inr (JStr ctext)"
    and d: "d = [(''@search.action'', JStr ''upload''),
           (''id'', JStr (py_str L raw_id @ ''_'' @ str_nat i)),
           (''parentDocId'', raw_id)]
          @ flds @
          [(''speaker'', speaker),
           (''start_offset'', start),
           (''end_offset'', en),
           (''start_at'', JStr (isoformat L t1 @ ''Z'')),
           (''end_at'', JStr (isoformat L t2 @ ''Z'')),
           (''text'', JStr (strip ctext))]"
    unfolding chunk_doc_def by (auto simp: bind_err_Inr_iff py_strip_Inr_iff)
  have absent: "k \<notin> set chunk_meta_fields \<Longrightarrow> map_of flds k = None" for k
    using getitems_absent [OF fs] .
  note f = field_of_Inr [OF st] field_of_Inr [OF en] field_of_Inr [OF id] field_of_Inr [OF sp]
    field_of_Inr [OF tx]
  show "map_of d ''id'' = Some (JStr (py_str L (field_of raw ''id'') @ ''_'' @ str_nat i))"
    by (simp add: d f)
  show "map_of d ''parentDocId'' = Some (field_of raw ''id'')"
    by (simp add: d f)
  show "map_of d ''flattened_transcript'' = None"
    using absent [of "''flattened_transcript''"] by (simp add: d chunk_meta_fields_def)
  show "map_of d ''speaker'' = Some (field_of c ''speaker'')"
    using absent [of "''speaker''"] by (simp add: d f chunk_meta_fields_def map_add_def)
  show "map_of d ''start_offset'' = Some (field_of c ''start'')"
    using absent [of "''start_offset''"] by (simp add: d f chunk_meta_fields_def map_add_def)
  show "map_of d ''end_offset'' = Some (field_of c ''end'')"
    using absent [of "''end_offset''"] by (simp add: d f chunk_meta_fields_def map_add_def)
  show "\<exists>t. add_seconds L base (field_of c ''start'') = Inr t \<and>
             map_of d ''start_at'' = Some (JStr (isoformat L t @ ''Z''))"
    using absent [of "''start_at''"] t1 by (simp add: d f chunk_meta_fields_def map_add_def)
  show "\<exists>t. add_seconds L base (field_of c ''end'') = Inr t \<and>
             map_of d ''end_at'' = Some (JStr (isoformat L t @ ''Z''))"
    using absent [of "''end_at''"] t2 by (simp add: d f chunk_meta_fields_def map_add_def)
  show "\<exists>t. field_of c ''text'' = JStr t \<and> map_of d ''text'' = Some (JStr (strip t))"
    using absent [of "''text''"] by (simp add: d f chunk_meta_fields_def map_add_def)
qed


lemma ChunkD:
  assumes "Chunk L base c"
  shows "\<exists>ckvs speaker start en ctext t1 t2. c = JObj ckvs \<and>
           map_of ckvs ''speaker'' = Some speaker \<and> map_of ckvs ''start'' = Some start \<and>
           map_of ckvs ''end'' = Some en \<and> map_of ckvs ''text'' = Some (JStr ctext) \<and>
           add_seconds L base start = Inr t1 \<and> add_seconds L base en = Inr t2"
  using assms unfolding Chunk_def
  by (auto simp: succeeds_iff split: json.splits option.splits)

lemma RawTranscriptDocumentD:
  assumes "RawTranscriptDocument L raw"
  shows "\<exists>kvs file_id m cs created base. raw = JObj kvs \<and>
           map_of kvs ''id'' = Some (JStr file_id) \<and> map_of kvs ''metadata'' = Some (JObj m) \<and>
           map_of kvs ''transcript_chunks'' = Some (JList cs) \<and>
           list_all (\<lambda>k. map_of m k \<noteq> None) file_meta_fields \<and>
           map_of m ''created'' = Some (JStr created) \<and>
           fromisoformat L (rstrip created ''Z'') = Inr base \<and> list_all (Chunk L base) cs"
  using assms unfolding RawTranscriptDocument_def
  by (auto split: json.splits option.splits sum.splits)

lemma chunk_doc_succeeds:
  assumes "Chunk L base c" and "py_getitem raw ''id'' = Inr raw_id"
    and "getitems meta chunk_meta_fields = Inr flds"
  shows "succeeds (chunk_doc L raw meta base i c)"
proof -
  from ChunkD [OF assms(1)] obtain ckvs speaker start en ctext t1 t2 where
    "c = JObj ckvs" "map_of ckvs ''speaker'' = Some speaker" "map_of ckvs ''start'' = Some start"
    "map_of ckvs ''end'' = Some en" "map_of ckvs ''text'' = Some (JStr ctext)"
    "add_seconds L base start = Inr t1" "add_seconds L base en = Inr t2"
    by blast
  then show ?thesis using assms(2,3)
    by (simp add: chunk_doc_def getitem_def succeeds_def)
qed

lemma list_all_append_fields:
  "list_all P file_meta_fields \<Longrightarrow> list_all P chunk_meta_fields"
  by (simp add: file_meta_fields_def)

lemma flatten_shaped:
  assumes v: "validate_document_structure S raw" and shape: "RawTranscriptDocument L raw"
  shows "\<exists>file_id m created base fdoc cdocs.
           field_of raw ''id'' = JStr file_id \<and> field_of raw ''metadata'' = JObj m \<and>
           py_getitem raw ''transcript_chunks'' = Inr (JList (chunks_of raw)) \<and>
           field_of (JObj m) ''created'' = JStr created \<and>
           fromisoformat L (rstrip created ''Z'') = Inr base \<and>
           file_doc raw (JObj m) = Inr fdoc \<and>
           chunk_loop L raw (JObj m) base 0 (chunks_of raw) = Inr cdocs \<and>
           flatten_for_ai_search L S raw = Some (fdoc # cdocs)"
proof -
  from RawTranscriptDocumentD [OF shape] obtain kvs file_id m cs created base where
      raw: "raw = JObj kvs" and id: "map_of kvs ''id'' = Some (JStr file_id)"
    and m: "map_of kvs ''metadata'' = Some (JObj m)"
    and cs: "map_of kvs ''transcript_chunks'' = Some (JList cs)"
    and present: "list_all (\<lambda>k. map_of m k \<noteq> None) file_meta_fields"
    and created: "map_of m ''created'' = Some (JStr created)"
    and base: "fromisoformat L (rstrip created ''Z'') = Inr base"
    and chunks: "list_all (Chunk L base) cs"
    by blast
  have gid: "py_getitem raw ''id'' = Inr (JStr file_id)" by (simp add: raw getitem_def id)
  have gm: "py_getitem raw ''metadata'' = Inr (JObj m)" by (simp add: raw getitem_def m)
  have gcs: "py_getitem raw ''transcript_chunks'' = Inr (JList cs)" by (simp add: raw getitem_def cs)
  have csof: "chunks_of raw = cs" by (simp add: chunks_of_def gcs)
  have gc: "py_getitem (JObj m) ''created'' = Inr (JStr created)" by (simp add: getitem_def created)
  have ffs: "getitems (JObj m) file_meta_fields =
               Inr (map (\<lambda>k. (k, the (map_of m k))) file_meta_fields)"
    using present by (simp add: getitems_dict)
  have cfs: "getitems (JObj m) chunk_meta_fields =
               Inr (map (\<lambda>k. (k, the (map_of m k))) chunk_meta_fields)"
    using list_all_append_fields [OF present] by (simp add: getitems_dict)
  obtain fdoc where fdoc: "file_doc raw (JObj m) = Inr fdoc"
    by (simp add: file_doc_def gid ffs)
  have "succeeds (chunk_loop L raw (JObj m) base 0 cs)"
  proof (rule chunk_loop_succeeds)
    fix c i assume "c \<in> set cs"
    then have "Chunk L base c" using chunks by (simp add: list_all_iff)
    then show "succeeds (chunk_doc L raw (JObj m) base i c)"
      by (rule chunk_doc_succeeds [OF _ gid cfs])
  qed
  then obtain cdocs where cdocs: "chunk_loop L raw (JObj m) base 0 cs = Inr cdocs"
    by (auto simp: succeeds_iff)
  have "flatten_for_ai_search L S raw = Some (fdoc # cdocs)"
    using flatten_SomeI [OF v gm gc base fdoc gcs cdocs] .
  then show ?thesis
    using gid gm gcs gc base fdoc cdocs csof by (auto simp: field_of_def)
qed

lemma file_doc_exact:
  assumes "file_doc raw meta = Inr fdoc"
  shows "fdoc = [(''@search.action'', JStr ''upload''), (''id'', field_of raw ''id'')]
                @ map (\<lambda>k. (k, field_of meta k)) file_meta_fields"
proof -
  have g: "getitems meta ks = Inr fs \<Longrightarrow> fs = map (\<lambda>k. (k, field_of meta k)) ks" for ks fs
    by (induction ks arbitrary: fs) (auto simp: bind_err_Inr_iff field_of_def)
  from assms show ?thesis
    unfolding file_doc_def by (auto simp: bind_err_Inr_iff field_of_def dest: g)
qed




text \<open>
  Claim C2. For every valid input with \<open>N\<close> chunks, every chunk record has a \<^verbatim>\<open>parentDocId\<close>
  equal to the file record's \<^verbatim>\<open>id\<close>, and the record of the chunk at input position \<open>i\<close>
  (0-based) has the id \<^verbatim>\<open>file_id + "_" + str(i)\<close>; it is the record of that chunk, with its
  speaker and offsets, so the input order is kept.
\<close>
theorem chunk_records_ids:
  assumes "validate_document_structure S raw" and "RawTranscriptDocument L raw"
  shows "\<exists>docs file_id. flatten_for_ai_search L S raw = Some docs \<and>
           field_of raw ''id'' = JStr file_id \<and>
           map_of (docs ! 0) ''id'' = Some (JStr file_id) \<and>
           (\<forall>i < length (chunks_of raw).
              map_of (docs ! Suc i) ''parentDocId'' = map_of (docs ! 0) ''id'' \<and>
              map_of (docs ! Suc i) ''id'' = Some (JStr (file_id @ ''_'' @ str_nat i)) \<and>
              map_of (docs ! Suc i) ''speaker'' = Some (field_of (chunks_of raw ! i) ''speaker'') \<and>
              map_of (docs ! Suc i) ''start_offset'' = Some (field_of (chunks_of raw ! i) ''start'') \<and>
              map_of (docs ! Suc i) ''end_offset'' = Some (field_of (chunks_of raw ! i) ''end''))"
proof -
  from flatten_shaped [OF assms] obtain file_id m created base fdoc cdocs where
      id: "field_of raw ''id'' = JStr file_id"
    and fdoc: "file_doc raw (JObj m) = Inr fdoc"
    and cdocs: "chunk_loop L raw (JObj m) base 0 (chunks_of raw) = Inr cdocs"
    and res: "flatten_for_ai_search L S raw = Some (fdoc # cdocs)"
    by blast
  have fid: "map_of fdoc ''id'' = Some (JStr file_id)"
    using file_doc_exact [OF fdoc] id by simp
  have chunk: "map_of (cdocs ! i) ''parentDocId'' = Some (JStr file_id) \<and>
               map_of (cdocs ! i) ''id'' = Some (JStr (file_id @ ''_'' @ str_nat i)) \<and>
               map_of (cdocs ! i) ''speaker'' = Some (field_of (chunks_of raw ! i) ''speaker'') \<and>
               map_of (cdocs ! i) ''start_offset'' = Some (field_of (chunks_of raw ! i) ''start'') \<and>
               map_of (cdocs ! i) ''end_offset'' = Some (field_of (chunks_of raw ! i) ''end'')"
    if "i < length (chunks_of raw)" for i
  proof -
    have "chunk_doc L raw (JObj m) base (0 + i) (chunks_of raw ! i) = Inr (cdocs ! i)"
      using chunk_loop_nth [OF cdocs that] .
    then have c: "chunk_doc L raw (JObj m) base i (chunks_of raw ! i) = Inr (cdocs ! i)" by simp
    from chunk_doc_fields(1,2,4,5,6) [OF c] show ?thesis by (simp add: id)
  qed
  show ?thesis using res id fid chunk by simp
qed

theorem chunk_records_ids_witness:
  "validate_document_structure (init ''_'' 10) fixture_document \<and>
   RawTranscriptDocument fixture_lib fixture_document \<and>
   (\<exists>docs file_id. flatten_for_ai_search fixture_lib (init ''_'' 10) fixture_document = Some docs \<and>
           field_of fixture_document ''id'' = JStr file_id \<and>
           map_of (docs ! 0) ''id'' = Some (JStr file_id) \<and>
           (\<forall>i < length (chunks_of fixture_document).
              map_of (docs ! Suc i) ''parentDocId'' = map_of (docs ! 0) ''id'' \<and>
              map_of (docs ! Suc i) ''id'' = Some (JStr (file_id @ ''_'' @ str_nat i)) \<and>
              map_of (docs ! Suc i) ''speaker'' = Some (field_of (chunks_of fixture_document ! i) ''speaker'') \<and>
              map_of (docs ! Suc i) ''start_offset'' = Some (field_of (chunks_of fixture_document ! i) ''start'') \<and>
              map_of (docs ! Suc i) ''end_offset'' = Some (field_of (chunks_of fixture_document ! i) ''end'')))"
proof -
  have v: "validate_document_structure (init ''_'' 10) fixture_document" by code_simp
  have s: "RawTranscriptDocument fixture_lib fixture_document" by code_simp
  show ?thesis using v s chunk_records_ids [OF v s] by simp
qed

text \<open>
  Claim C6, as stated, says the file-level record carries every field of the input's
  metadata, also those beyond the nine named ones. On the fixture with the further
  metadata field \<^verbatim>\<open>language\<close> the file record has no such field.
\<close>
theorem file_record_all_metadata_counterexample:
  "validate_document_structure (init ''_'' 10) fixture_document_extra \<and>
   RawTranscriptDocument fixture_lib fixture_document_extra \<and>
   field_of (field_of fixture_document_extra ''metadata'') ''language'' = JStr ''en'' \<and>
   flatten_for_ai_search fixture_lib (init ''_'' 10) fixture_document_extra \<noteq> None \<and>
   map_of (hd (the (flatten_for_ai_search fixture_lib (init ''_'' 10) fixture_document_extra)))
     ''language'' = None"
  by code_simp

text \<open>
  Claim C6, amended. For every valid input the file-level record is exactly the marker
  \<^verbatim>\<open>"@search.action": "upload"\<close>, the input's \<^verbatim>\<open>id\<close>, and the nine named metadata fields
  (\<^verbatim>\<open>transaction_key\<close>, \<^verbatim>\<open>request_id\<close>, \<^verbatim>\<open>sha256\<close>, \<^verbatim>\<open>created\<close>, \<^verbatim>\<open>duration\<close>, \<^verbatim>\<open>channels\<close>,
  \<^verbatim>\<open>Filename\<close>, \<^verbatim>\<open>videolink\<close>, \<^verbatim>\<open>flattened_transcript\<close>) with the input's values; a metadata
  field beyond those nine is not carried.
\<close>
theorem file_record_named_fields:
  assumes "validate_document_structure S raw" and "RawTranscriptDocument L raw"
  shows "\<exists>docs. flatten_for_ai_search L S raw = Some docs \<and>
           hd docs = [(''@search.action'', JStr ''upload''), (''id'', field_of raw ''id'')]
                     @ map (\<lambda>k. (k, field_of (field_of raw ''metadata'') k)) file_meta_fields"
proof -
  from flatten_shaped [OF assms] obtain file_id m created base fdoc cdocs where
      meta: "field_of raw ''metadata'' = JObj m"
    and fdoc: "file_doc raw (JObj m) = Inr fdoc"
    and res: "flatten_for_ai_search L S raw = Some (fdoc # cdocs)"
    by blast
  show ?thesis using res file_doc_exact [OF fdoc] by (simp add: meta)
qed

theorem file_record_named_fields_witness:
  "validate_document_structure (init ''_'' 10) fixture_document_extra \<and>
   RawTranscriptDocument fixture_lib fixture_document_extra \<and>
   (\<exists>docs. flatten_for_ai_search fixture_lib (init ''_'' 10) fixture_document_extra = Some docs \<and>
           hd docs = [(''@search.action'', JStr ''upload''), (''id'', field_of fixture_document_extra ''id'')]
                     @ map (\<lambda>k. (k, field_of (field_of fixture_document_extra ''metadata'') k)) file_meta_fields)"
proof -
  have v: "validate_document_structure (init ''_'' 10) fixture_document_extra" by code_simp
  have s: "RawTranscriptDocument fixture_lib fixture_document_extra" by code_simp
  show ?thesis using v s file_record_named_fields [OF v s] by simp
qed


lemma rstrip_append_Z: "rstrip (c @ ''Z'') ''Z'' = rstrip c ''Z''"
  by (simp add: rstrip_def)

lemma keys_update_present:
  "map_of kvs k = Some v \<Longrightarrow> (k' \<in> fst ` set (AList.update k v' kvs)) = (k' \<in> fst ` set kvs)"
  by (auto simp: mem_keys_iff update_conv')

lemma validate_update_metadata:
  assumes "map_of kvs ''metadata'' = Some (JObj m)"
  shows "validate_document_structure S (JObj (AList.update ''metadata'' (JObj m') kvs))
           = validate_document_structure S (JObj kvs)"
proof -
  have keys: "(k \<in> fst ` set (AList.update ''metadata'' (JObj m') kvs)) = (k \<in> fst ` set kvs)" for k
    using keys_update_present [OF assms] .
  have "validate_body S (JObj (AList.update ''metadata'' (JObj m') kvs)) = validate_body S (JObj kvs)"
    unfolding validate_body_def
    by (simp add: missing_from_dict keys update_conv' assms getitem_def cong: if_cong)
  then show ?thesis by (simp add: validate_document_structure_def validate_trace_def)
qed

lemma succeeds_chunk_doc:
  "succeeds (chunk_doc L raw meta base i c) \<longleftrightarrow>
     succeeds (py_getitem raw ''id'') \<and> succeeds (getitems meta chunk_meta_fields) \<and>
     succeeds (py_getitem c ''start'') \<and> succeeds (py_getitem c ''end'') \<and>
     succeeds (py_getitem c ''speaker'') \<and>
     succeeds (add_seconds L base (field_of c ''start'')) \<and>
     succeeds (add_seconds L base (field_of c ''end'')) \<and>
     (\<exists>t. py_getitem c ''text'' = Inr (JStr t))"
  unfolding chunk_doc_def
  by (auto simp: succeeds_bind_err succeeds_iff bind_err_Inr_iff py_strip_Inr_iff field_of_def)

lemma chunk_doc_timestamps:
  assumes "chunk_doc L raw meta base i c = Inr d"
  shows "timestamps d =
           (Some (JStr (isoformat L (projr (add_seconds L base (field_of c ''start''))) @ ''Z'')),
            Some (JStr (isoformat L (projr (add_seconds L base (field_of c ''end''))) @ ''Z'')))"
  using chunk_doc_fields(7,8) [OF assms] by (auto simp: timestamps_def)

lemma chunk_doc_related:
  assumes "succeeds (py_getitem raw1 ''id'') = succeeds (py_getitem raw2 ''id'')"
    and "succeeds (getitems meta1 chunk_meta_fields) = succeeds (getitems meta2 chunk_meta_fields)"
  shows "map_sum (\<lambda>e. ()) timestamps (chunk_doc L raw1 meta1 base i c)
           = map_sum (\<lambda>e. ()) timestamps (chunk_doc L raw2 meta2 base i c)"
proof (cases "succeeds (chunk_doc L raw1 meta1 base i c)")
  case True
  then have "succeeds (chunk_doc L raw2 meta2 base i c)"
    using assms by (simp add: succeeds_chunk_doc)
  with True obtain d1 d2 where d1: "chunk_doc L raw1 meta1 base i c = Inr d1"
    and d2: "chunk_doc L raw2 meta2 base i c = Inr d2"
    by (auto simp: succeeds_iff)
  show ?thesis using chunk_doc_timestamps [OF d1] chunk_doc_timestamps [OF d2] by (simp add: d1 d2)
next
  case False
  then have "\<not> succeeds (chunk_doc L raw2 meta2 base i c)"
    using assms by (simp add: succeeds_chunk_doc)
  with False obtain e1 e2 where "chunk_doc L raw1 meta1 base i c = Inl e1"
    and "chunk_doc L raw2 meta2 base i c = Inl e2"
    by (cases "chunk_doc L raw1 meta1 base i c"; cases "chunk_doc L raw2 meta2 base i c")
       (auto simp: succeeds_def)
  then show ?thesis by simp
qed

lemma chunk_loop_related:
  assumes "succeeds (py_getitem raw1 ''id'') = succeeds (py_getitem raw2 ''id'')"
    and "succeeds (getitems meta1 chunk_meta_fields) = succeeds (getitems meta2 chunk_meta_fields)"
  shows "map_sum (\<lambda>e. ()) (map timestamps) (chunk_loop L raw1 meta1 base i cs)
           = map_sum (\<lambda>e. ()) (map timestamps) (chunk_loop L raw2 meta2 base i cs)"
proof (induction cs arbitrary: i)
  case Nil
  show ?case by simp
next
  case (Cons c cs)
  have hd: "map_sum (\<lambda>e. ()) timestamps (chunk_doc L raw1 meta1 base i c)
              = map_sum (\<lambda>e. ()) timestamps (chunk_doc L raw2 meta2 base i c)"
    using chunk_doc_related [OF assms] .
  have tl: "map_sum (\<lambda>e. ()) (map timestamps) (chunk_loop L raw1 meta1 base (Suc i) cs)
              = map_sum (\<lambda>e. ()) (map timestamps) (chunk_loop L raw2 meta2 base (Suc i) cs)"
    using Cons.IH .
  show ?case using hd tl
    by (cases "chunk_doc L raw1 meta1 base i c"; cases "chunk_doc L raw2 meta2 base i c";
        cases "chunk_loop L raw1 meta1 base (Suc i) cs";
        cases "chunk_loop L raw2 meta2 base (Suc i) cs") auto
qed

lemma succeeds_file_doc:
  "succeeds (file_doc raw meta) \<longleftrightarrow>
     succeeds (py_getitem raw ''id'') \<and> succeeds (getitems meta file_meta_fields)"
  unfolding file_doc_def by (auto simp: succeeds_bind_err succeeds_iff bind_err_Inr_iff)

lemma file_doc_timestamps:
  assumes "file_doc raw meta = Inr fdoc"
  shows "timestamps fdoc = (None, None)"
  unfolding file_doc_exact [OF assms]
  by (simp add: timestamps_def file_meta_fields_def chunk_meta_fields_def)

lemma succeeds_getitems_update:
  "succeeds (getitems (JObj (AList.update k (JStr c) m)) ks)
     = succeeds (getitems (JObj (AList.update k (JStr c') m)) ks)"
  by (simp add: getitems_dict update_conv' succeeds_def list_all_iff)

lemma with_created_same:
  assumes "\<not> (\<exists>kvs m. raw = JObj kvs \<and> map_of kvs ''metadata'' = Some (JObj m))"
  shows "with_created c raw = raw"
  using assms by (auto simp: with_created_def split: json.splits option.splits)

lemma flatten_with_created_Z:
  "map_option (map timestamps) (flatten_for_ai_search L S (with_created (c @ ''Z'') raw))
     = map_option (map timestamps) (flatten_for_ai_search L S (with_created c raw))"
proof (cases "\<exists>kvs m. raw = JObj kvs \<and> map_of kvs ''metadata'' = Some (JObj m)")
  case False
  then show ?thesis by (simp add: with_created_same)
next
  case True
  then obtain kvs m where raw: "raw = JObj kvs" and m: "map_of kvs ''metadata'' = Some (JObj m)"
    by blast
  define M1 where "M1 = JObj (AList.update ''created'' (JStr (c @ ''Z'')) m)"
  define M2 where "M2 = JObj (AList.update ''created'' (JStr c) m)"
  define R1 where "R1 = JObj (AList.update ''metadata'' M1 kvs)"
  define R2 where "R2 = JObj (AList.update ''metadata'' M2 kvs)"
  have w1: "with_created (c @ ''Z'') raw = R1" and w2: "with_created c raw = R2"
    by (simp_all add: with_created_def raw m R1_def R2_def M1_def M2_def)
  have v: "validate_document_structure S R1 = validate_document_structure S R2"
    unfolding R1_def R2_def M1_def M2_def by (simp add: validate_update_metadata [OF m])
  have gm1: "py_getitem R1 ''metadata'' = Inr M1" and gm2: "py_getitem R2 ''metadata'' = Inr M2"
    by (simp_all add: R1_def R2_def getitem_def update_conv')
  have gc1: "py_getitem M1 ''created'' = Inr (JStr (c @ ''Z''))"
    and gc2: "py_getitem M2 ''created'' = Inr (JStr c)"
    by (simp_all add: M1_def M2_def getitem_def update_conv')
  have gid: "py_getitem R1 ''id'' = py_getitem R2 ''id''"
    by (simp add: R1_def R2_def getitem_def update_conv')
  have gch: "py_getitem R1 ''transcript_chunks'' = py_getitem R2 ''transcript_chunks''"
    by (simp add: R1_def R2_def getitem_def update_conv')
  have sf: "succeeds (getitems M1 ks) = succeeds (getitems M2 ks)" for ks
    unfolding M1_def M2_def by (rule succeeds_getitems_update)
  have sid: "succeeds (py_getitem R1 ''id'') = succeeds (py_getitem R2 ''id'')"
    by (simp add: gid)
  have fd: "succeeds (file_doc R1 M1) = succeeds (file_doc R2 M2)"
    by (simp add: succeeds_file_doc sid sf)
  have cd: "map_sum (\<lambda>e. ()) (map timestamps) (chunk_loop L R1 M1 base 0 cs)
              = map_sum (\<lambda>e. ()) (map timestamps) (chunk_loop L R2 M2 base 0 cs)" for base cs
    by (rule chunk_loop_related [OF sid sf])
  have body1: "flatten_body L S R1 =
     (if \<not> validate_document_structure S R2 then Inr None
      else
        bind_err (fromisoformat L (rstrip c ''Z'')) (\<lambda>base.
        bind_err (file_doc R1 M1) (\<lambda>fdoc.
        bind_err (py_getitem R2 ''transcript_chunks'') (\<lambda>chunks.
        (case chunks of
           JList cs \<Rightarrow>
             bind_err (chunk_loop L R1 M1 base 0 cs) (\<lambda>docs.
             Inr (Some (fdoc # docs)))
         | _ \<Rightarrow> Inl TypeError)))))"
    unfolding flatten_body_def by (simp add: v gm1 gc1 gch rstrip_append_Z)
  have body2: "flatten_body L S R2 =
     (if \<not> validate_document_structure S R2 then Inr None
      else
        bind_err (fromisoformat L (rstrip c ''Z'')) (\<lambda>base.
        bind_err (file_doc R2 M2) (\<lambda>fdoc.
        bind_err (py_getitem R2 ''transcript_chunks'') (\<lambda>chunks.
        (case chunks of
           JList cs \<Rightarrow>
             bind_err (chunk_loop L R2 M2 base 0 cs) (\<lambda>docs.
             Inr (Some (fdoc # docs)))
         | _ \<Rightarrow> Inl TypeError)))))"
    unfolding flatten_body_def by (simp add: gm2 gc2)
  have "map_option (map timestamps) (flatten_for_ai_search L S R1)
          = map_option (map timestamps) (flatten_for_ai_search L S R2)"
  proof (cases "validate_document_structure S R2")
    case False
    then show ?thesis by (simp add: flatten_for_ai_search_def body1 body2)
  next
    case valid: True
    show ?thesis
    proof (cases "fromisoformat L (rstrip c ''Z'')")
      case (Inl e)
      then show ?thesis by (simp add: flatten_for_ai_search_def body1 body2 valid)
    next
      case (Inr base)
      note base = this
      show ?thesis
      proof (cases "succeeds (file_doc R2 M2)")
        case False
        then obtain e1 e2 where "file_doc R1 M1 = Inl e1" "file_doc R2 M2 = Inl e2"
          using fd by (cases "file_doc R1 M1"; cases "file_doc R2 M2") (auto simp: succeeds_def)
        then show ?thesis by (simp add: flatten_for_ai_search_def body1 body2 valid base)
      next
        case True
        then obtain f1 f2 where f1: "file_doc R1 M1 = Inr f1" and f2: "file_doc R2 M2 = Inr f2"
          using fd by (auto simp: succeeds_iff)
        have tf: "timestamps f1 = timestamps f2"
          using file_doc_timestamps [OF f1] file_doc_timestamps [OF f2] by simp
        show ?thesis
        proof (cases "py_getitem R2 ''transcript_chunks''")
          case (Inl e)
          then show ?thesis by (simp add: flatten_for_ai_search_def body1 body2 valid base f1 f2)
        next
          case (Inr chunks)
          note chunks = this
          show ?thesis
          proof (cases "is_list chunks")
            case False
            then show ?thesis
              by (cases chunks)
                 (simp_all add: flatten_for_ai_search_def body1 body2 valid base f1 f2 chunks)
          next
            case True
            then obtain cs where cs: "chunks = JList cs" by (cases chunks) auto
            show ?thesis using cd [of base cs] tf
              by (cases "chunk_loop L R1 M1 base 0 cs"; cases "chunk_loop L R2 M2 base 0 cs")
                 (simp_all add: flatten_for_ai_search_def body1 body2 valid base f1 f2 chunks cs)
          qed
        qed
      qed
    qed
  qed
  then show ?thesis by (simp add: w1 w2)
qed


lemma with_created_shaped:
  assumes "RawTranscriptDocument L raw"
    and "field_of (field_of raw ''metadata'') ''created'' = JStr created"
  shows "with_created created raw = raw"
proof -
  from RawTranscriptDocumentD [OF assms(1)] obtain kvs m c where raw: "raw = JObj kvs"
    and m: "map_of kvs ''metadata'' = Some (JObj m)" and c: "map_of m ''created'' = Some (JStr c)"
    by blast
  have "c = created" using assms(2) by (simp add: raw field_of_def getitem_def m c)
  then show ?thesis
    by (simp add: with_created_def raw m c AList.update_triv)
qed

text \<open>
  Claim C3. For every valid input, the \<^verbatim>\<open>start_at\<close> (\<^verbatim>\<open>end_at\<close>) of the record of chunk \<open>i\<close> is
  the timestamp parsed from \<^verbatim>\<open>metadata.created\<close> with its trailing \<^verbatim>\<open>Z\<close> stripped, plus the
  chunk's \<^verbatim>\<open>start\<close> (\<^verbatim>\<open>end\<close>) seconds, in ISO form with a literal \<^verbatim>\<open>Z\<close> appended. Two inputs that
  differ only in that one's \<^verbatim>\<open>created\<close> carries one more trailing \<^verbatim>\<open>Z\<close> have the same
  \<^verbatim>\<open>start_at\<close> and \<^verbatim>\<open>end_at\<close> in every record: the input with the \<^verbatim>\<open>Z\<close> appended flattens
  too, to the same timestamps, and so for any \<^verbatim>\<open>created\<close> string at all.
\<close>
theorem chunk_timestamps:
  assumes "validate_document_structure S raw" and "RawTranscriptDocument L raw"
  shows "\<exists>docs created base.
           flatten_for_ai_search L S raw = Some docs \<and>
           field_of (field_of raw ''metadata'') ''created'' = JStr created \<and>
           fromisoformat L (rstrip created ''Z'') = Inr base \<and>
           (\<forall>i < length (chunks_of raw). \<exists>t1 t2.
              add_seconds L base (field_of (chunks_of raw ! i) ''start'') = Inr t1 \<and>
              add_seconds L base (field_of (chunks_of raw ! i) ''end'') = Inr t2 \<and>
              map_of (docs ! Suc i) ''start_at'' = Some (JStr (isoformat L t1 @ ''Z'')) \<and>
              map_of (docs ! Suc i) ''end_at'' = Some (JStr (isoformat L t2 @ ''Z''))) \<and>
           (\<exists>docs'. flatten_for_ai_search L S (with_created (created @ ''Z'') raw) = Some docs' \<and>
              map timestamps docs' = map timestamps docs) \<and>
           (\<forall>c. map_option (map timestamps) (flatten_for_ai_search L S (with_created (c @ ''Z'') raw))
                = map_option (map timestamps) (flatten_for_ai_search L S (with_created c raw)))"
proof -
  from flatten_shaped [OF assms] obtain file_id m created base fdoc cdocs where
      meta: "field_of raw ''metadata'' = JObj m"
    and created: "field_of (JObj m) ''created'' = JStr created"
    and base: "fromisoformat L (rstrip created ''Z'') = Inr base"
    and cdocs: "chunk_loop L raw (JObj m) base 0 (chunks_of raw) = Inr cdocs"
    and res: "flatten_for_ai_search L S raw = Some (fdoc # cdocs)"
    by blast
  have chunk: "\<exists>t1 t2.
              add_seconds L base (field_of (chunks_of raw ! i) ''start'') = Inr t1 \<and>
              add_seconds L base (field_of (chunks_of raw ! i) ''end'') = Inr t2 \<and>
              map_of (cdocs ! i) ''start_at'' = Some (JStr (isoformat L t1 @ ''Z'')) \<and>
              map_of (cdocs ! i) ''end_at'' = Some (JStr (isoformat L t2 @ ''Z''))"
    if "i < length (chunks_of raw)" for i
  proof -
    have "chunk_doc L raw (JObj m) base (0 + i) (chunks_of raw ! i) = Inr (cdocs ! i)"
      using chunk_loop_nth [OF cdocs that] .
    then have c: "chunk_doc L raw (JObj m) base i (chunks_of raw ! i) = Inr (cdocs ! i)" by simp
    from chunk_doc_fields(7,8) [OF c] show ?thesis by blast
  qed
  have cr: "field_of (field_of raw ''metadata'') ''created'' = JStr created"
    by (simp add: meta created)
  have same: "with_created created raw = raw"
    using with_created_shaped [OF assms(2) cr] .
  have "map_option (map timestamps) (flatten_for_ai_search L S (with_created (created @ ''Z'') raw))
          = map_option (map timestamps) (flatten_for_ai_search L S raw)"
    using flatten_with_created_Z [of L S created raw] by (simp add: same)
  then have z: "\<exists>docs'. flatten_for_ai_search L S (with_created (created @ ''Z'') raw) = Some docs' \<and>
              map timestamps docs' = map timestamps (fdoc # cdocs)"
    by (simp add: res)
  show ?thesis using res cr base chunk z flatten_with_created_Z [of L S _ raw] by simp
qed

theorem chunk_timestamps_witness:
  "validate_document_structure (init ''_'' 10) fixture_document \<and>
   RawTranscriptDocument fixture_lib fixture_document \<and>
   (\<exists>docs created base.
           flatten_for_ai_search fixture_lib (init ''_'' 10) fixture_document = Some docs \<and>
           field_of (field_of fixture_document ''metadata'') ''created'' = JStr created \<and>
           fromisoformat fixture_lib (rstrip created ''Z'') = Inr base \<and>
           (\<forall>i < length (chunks_of fixture_document). \<exists>t1 t2.
              add_seconds fixture_lib base (field_of (chunks_of fixture_document ! i) ''start'') = Inr t1 \<and>
              add_seconds fixture_lib base (field_of (chunks_of fixture_document ! i) ''end'') = Inr t2 \<and>
              map_of (docs ! Suc i) ''start_at'' = Some (JStr (isoformat fixture_lib t1 @ ''Z'')) \<and>
              map_of (docs ! Suc i) ''end_at'' = Some (JStr (isoformat fixture_lib t2 @ ''Z''))) \<and>
           (\<exists>docs'. flatten_for_ai_search fixture_lib (init ''_'' 10)
                        (with_created (created @ ''Z'') fixture_document) = Some docs' \<and>
              map timestamps docs' = map timestamps docs) \<and>
           (\<forall>c. map_option (map timestamps)
                  (flatten_for_ai_search fixture_lib (init ''_'' 10) (with_created (c @ ''Z'') fixture_document))
                = map_option (map timestamps)
                  (flatten_for_ai_search fixture_lib (init ''_'' 10) (with_created c fixture_document))))"
proof -
  have v: "validate_document_structure (init ''_'' 10) fixture_document" by code_simp
  have s: "RawTranscriptDocument fixture_lib fixture_document" by code_simp
  show ?thesis using v s chunk_timestamps [OF v s] by simp
qed

lemma fixture_timestamps:
  "map timestamps (the (flatten_for_ai_search fixture_lib (init ''_'' 10) fixture_document)) =
     [(None, None),
      (Some (JStr ''2024-01-01T00:00:00Z''), Some (JStr ''2024-01-01T00:00:05Z'')),
      (Some (JStr ''2024-01-01T00:00:05Z''), Some (JStr ''2024-01-01T00:00:12Z''))]"
  by code_simp

lemma fixture_timestamps_no_Z:
  "map timestamps (the (flatten_for_ai_search fixture_lib (init ''_'' 10)
       (with_created ''2024-01-01T00:00:00'' fixture_document))) =
     [(None, None),
      (Some (JStr ''2024-01-01T00:00:00Z''), Some (JStr ''2024-01-01T00:00:05Z'')),
      (Some (JStr ''2024-01-01T00:00:05Z''), Some (JStr ''2024-01-01T00:00:12Z''))]"
  by code_simp

section \<open>Properties of flatten_json\<close>

text \<open>
  Claim C7 says \<^verbatim>\<open>flatten_json\<close> maps \<^verbatim>\<open>{"a": {"b": 1}}\<close> to \<^verbatim>\<open>{"a_b": "1"}\<close>. The code joins a
  nested key to its prefix with nothing in between, whatever the separator the flattener
  was built with: the result is \<^verbatim>\<open>{"ab": "1"}\<close>. The other parts of the claim hold and are
  the lemmas after the theorem.
\<close>
theorem flatten_json_nested_key_unseparated:
  "flatten_json L (init sep 10) (JObj [(''a'', JObj [(''b'', JInt 1)])]) [] = [(''ab'', ''1'')] \<and>
   flatten_json L (init sep 10) (JObj [(''a'', JObj [(''b'', JInt 1)])]) [] \<noteq> [(''a_b'', ''1'')]"
  by (simp add: flatten_json_def init_def sanitize_key_def replace_def isalpha_def str_int_def
        str_nat.simps)

lemma flatten_json_list_example:
  "flatten_json L (init sep 10) (JObj [(''a'', JList [JInt 1, JInt 2])]) []
     = [(''a[0]'', ''1''), (''a[1]'', ''2'')]"
  by (simp add: flatten_json_def init_def sanitize_key_def replace_def isalpha_def str_int_def
        str_nat.simps)

lemma sanitize_key_digit_example: "sanitize_key ''1x'' = ''field_1x''"
  by (simp add: sanitize_key_def replace_def isalpha_def)

lemma flatten_json_digit_key_example:
  "flatten_json L (init sep 10) (JObj [(''1x'', v)]) [] = flatten_rec L (init sep 10) v ''field_1x'' 1 []"
  by (simp add: flatten_json_def init_def sanitize_key_def replace_def isalpha_def Let_def)

lemma flatten_json_depth_example:
  "flatten_json L (init sep 1) (JObj [(''a'', JInt 1), (''b'', JObj [(''c'', JInt 2)])]) []
     = [(''a'', ''1'')]"
  by (simp add: flatten_json_def init_def sanitize_key_def replace_def isalpha_def str_int_def
        str_nat.simps)

lemma flatten_rec_beyond_max_depth:
  "int depth > max_depth self \<Longrightarrow> flatten_rec L self obj current_prefix depth flattened = flattened"
  by simp

section \<open>Validation does not imply flattening\<close>

text \<open>
  Claim C9. There is a document that \<^verbatim>\<open>validate_document_structure\<close> accepts and for which
  \<^verbatim>\<open>flatten_for_ai_search\<close> returns \<^verbatim>\<open>None\<close>: a document with only \<^verbatim>\<open>id\<close> and an empty
  \<^verbatim>\<open>metadata\<close>. The validator asks for no metadata field and takes \<^verbatim>\<open>transcript_chunks\<close> as
  optional; the projector reads \<^verbatim>\<open>meta["created"]\<close>, which raises \<^verbatim>\<open>KeyError\<close>, and the
  handler turns the exception into \<^verbatim>\<open>None\<close>.
\<close>
theorem validated_document_fails_flattening:
  "validate_document_structure (init sep md) (JObj [(''id'', JStr ''doc1''), (''metadata'', JObj [])]) \<and>
   flatten_for_ai_search L (init sep md) (JObj [(''id'', JStr ''doc1''), (''metadata'', JObj [])]) = None \<and>
   flatten_body L (init sep md) (JObj [(''id'', JStr ''doc1''), (''metadata'', JObj [])]) = Inl KeyError"
proof -
  have v: "validate_document_structure (init sep md) (JObj [(''id'', JStr ''doc1''), (''metadata'', JObj [])])"
    by (simp add: validate_dict_iff)
  have b: "flatten_body L (init sep md) (JObj [(''id'', JStr ''doc1''), (''metadata'', JObj [])]) = Inl KeyError"
    using v by (simp add: flatten_body_def getitem_def)
  show ?thesis using v b by (simp add: flatten_for_ai_search_def)
qed

section \<open>Properties of batch_flatten_json\<close>

text \<open>
  Claim C10. \<^verbatim>\<open>batch_flatten_json\<close> called with an empty list of paths raises
  \<^verbatim>\<open>ZeroDivisionError\<close> and returns no list: both counters are zero when the success rate
  is computed, and the division stands outside every handler.
\<close>
theorem batch_empty_list_raises:
  "batch_flatten_json L self fs [] validate_only = Inl ZeroDivisionError"
  by (simp add: batch_flatten_json_def batch_run_def)


lemma flatten_Some_structure:
  assumes "flatten_for_ai_search L S raw = Some docs"
  shows "docs \<noteq> [] \<and> ''flattened_transcript'' \<in> fst ` set (hd docs) \<and>
         ''parentDocId'' \<notin> fst ` set (hd docs) \<and>
         (\<forall>d \<in> set (tl docs). ''parentDocId'' \<in> fst ` set d \<and> ''flattened_transcript'' \<notin> fst ` set d)"
proof -
  from flatten_SomeD [OF assms] obtain meta base fdoc cs cdocs where
      fdoc: "file_doc raw meta = Inr fdoc"
    and cdocs: "chunk_loop L raw meta base 0 cs = Inr cdocs"
    and docs: "docs = fdoc # cdocs"
    by blast
  have f: "''flattened_transcript'' \<in> fst ` set fdoc \<and> ''parentDocId'' \<notin> fst ` set fdoc"
    unfolding file_doc_exact [OF fdoc]
    by (simp add: file_meta_fields_def chunk_meta_fields_def image_iff)
  have c: "''parentDocId'' \<in> fst ` set d \<and> ''flattened_transcript'' \<notin> fst ` set d"
    if "d \<in> set cdocs" for d
  proof -
    from that obtain j where j: "j < length cdocs" and d: "d = cdocs ! j"
      by (auto simp: in_set_conv_nth)
    have "chunk_doc L raw meta base (0 + j) (cs ! j) = Inr (cdocs ! j)"
      using chunk_loop_nth [OF cdocs] j chunk_loop_length [OF cdocs] by simp
    from chunk_doc_fields(2,3) [OF this] show ?thesis by (simp add: d mem_keys_iff)
  qed
  show ?thesis using f c by (simp add: docs)
qed

lemma process_file_records:
  "process_file L S fs False st p =
     (case file_records L S fs p of
        None \<Rightarrow> count_error st
      | Some r \<Rightarrow> count_processed (st\<lparr>flattened_documents := flattened_documents st @ r\<rparr>))"
proof -
  have none: "\<not> validate_document_structure S d \<Longrightarrow> flatten_for_ai_search L S d = None" for d
    by (simp add: flatten_for_ai_search_def flatten_body_def)
  have some: "flatten_for_ai_search L S d = Some r \<Longrightarrow> validate_document_structure S d \<and> r \<noteq> []" for d r
    using flatten_SomeD [of L S d r] by auto
  show ?thesis
    unfolding process_file_def file_records_def
    by (auto simp: none dest: some split: option.splits read_result.splits)
qed

lemma foldl_process_file:
  "foldl (process_file L S fs False) st files =
     \<lparr>flattened_documents = flattened_documents st
         @ concat (map (\<lambda>p. case file_records L S fs p of None \<Rightarrow> [] | Some r \<Rightarrow> r) files),
      processed_count = processed_count st + length (filter (\<lambda>p. file_records L S fs p \<noteq> None) files),
      error_count = error_count st + length (filter (\<lambda>p. file_records L S fs p = None) files)\<rparr>"
proof (induction files arbitrary: st)
  case Nil
  show ?case by simp
next
  case (Cons p files)
  have step: "foldl (process_file L S fs False) st (p # files)
                = foldl (process_file L S fs False) (process_file L S fs False st p) files"
    by simp
  have one: "process_file L S fs False st p =
               (case file_records L S fs p of
                  None \<Rightarrow> count_error st
                | Some r \<Rightarrow> count_processed (st\<lparr>flattened_documents := flattened_documents st @ r\<rparr>))"
    by (rule process_file_records)
  show ?case unfolding step Cons.IH one
    by (cases "file_records L S fs p") (simp_all add: count_error_def count_processed_def)
qed

lemma process_file_counts:
  "processed_count (process_file L S fs vo st p) + error_count (process_file L S fs vo st p)
     = processed_count st + error_count st + 1"
  by (simp add: process_file_def count_error_def count_processed_def
           split: option.splits read_result.splits)

lemma foldl_process_file_counts:
  "processed_count (foldl (process_file L S fs vo) st files)
     + error_count (foldl (process_file L S fs vo) st files)
     = processed_count st + error_count st + length files"
  by (induction files arbitrary: st) (simp_all add: process_file_counts)

text \<open>
  Claim C4. For a list of one well-formed transcript file and one malformed file, in
  either order, \<^verbatim>\<open>batch_flatten_json\<close> returns exactly the records of the well-formed
  file, with one success and one error counted; the records start with the file record
  and the chunk records follow. For any list of files the output is the concatenation,
  in input order, of what each file yields (nothing for a file that fails), so the
  records of one input are contiguous and a failing file stops nothing; and for any
  non-empty list the driver returns.
\<close>
theorem batch_isolates_malformed_file:
  assumes "file_records L S fs good = Some recs" and "file_records L S fs bad = None"
  shows "batch_run L S fs [good, bad] False
           = \<lparr>flattened_documents = recs, processed_count = 1, error_count = 1\<rparr> \<and>
         batch_run L S fs [bad, good] False
           = \<lparr>flattened_documents = recs, processed_count = 1, error_count = 1\<rparr> \<and>
         batch_flatten_json L S fs [good, bad] False = Inr recs \<and>
         batch_flatten_json L S fs [bad, good] False = Inr recs \<and>
         recs \<noteq> [] \<and> ''flattened_transcript'' \<in> fst ` set (hd recs) \<and>
         (\<forall>d \<in> set (tl recs). ''parentDocId'' \<in> fst ` set d) \<and>
         (\<forall>files.
            flattened_documents (batch_run L S fs files False)
              = concat (map (\<lambda>p. case file_records L S fs p of None \<Rightarrow> [] | Some r \<Rightarrow> r) files) \<and>
            processed_count (batch_run L S fs files False)
              = length (filter (\<lambda>p. file_records L S fs p \<noteq> None) files) \<and>
            error_count (batch_run L S fs files False)
              = length (filter (\<lambda>p. file_records L S fs p = None) files)) \<and>
         (\<forall>files validate_only. files \<noteq> [] \<longrightarrow>
            batch_flatten_json L S fs files validate_only
              = Inr (flattened_documents (batch_run L S fs files validate_only)))"
proof -
  have run: "batch_run L S fs files False =
     \<lparr>flattened_documents
         = concat (map (\<lambda>p. case file_records L S fs p of None \<Rightarrow> [] | Some r \<Rightarrow> r) files),
      processed_count = length (filter (\<lambda>p. file_records L S fs p \<noteq> None) files),
      error_count = length (filter (\<lambda>p. file_records L S fs p = None) files)\<rparr>" for files
    by (simp add: batch_run_def foldl_process_file)
  have counts: "processed_count (batch_run L S fs files vo) + error_count (batch_run L S fs files vo)
                  = length files" for files vo
    by (simp add: batch_run_def foldl_process_file_counts)
  have ret: "files \<noteq> [] \<Longrightarrow> batch_flatten_json L S fs files vo
               = Inr (flattened_documents (batch_run L S fs files vo))" for files vo
    using counts [of files vo] by (cases files) (auto simp: batch_flatten_json_def Let_def)
  from assms(1) obtain d where "flatten_for_ai_search L S d = Some recs"
    by (auto simp: file_records_def split: option.splits read_result.splits)
  from flatten_Some_structure [OF this]
  have first: "recs \<noteq> [] \<and> ''flattened_transcript'' \<in> fst ` set (hd recs) \<and>
         (\<forall>d \<in> set (tl recs). ''parentDocId'' \<in> fst ` set d)"
    by simp
  have gb: "batch_run L S fs [good, bad] False
           = \<lparr>flattened_documents = recs, processed_count = 1, error_count = 1\<rparr>"
    and bg: "batch_run L S fs [bad, good] False
           = \<lparr>flattened_documents = recs, processed_count = 1, error_count = 1\<rparr>"
    by (simp_all add: run assms)
  have "batch_flatten_json L S fs [good, bad] False = Inr recs"
    and "batch_flatten_json L S fs [bad, good] False = Inr recs"
    using ret [of "[good, bad]" False] ret [of "[bad, good]" False] by (simp_all add: gb bg)
  then show ?thesis using gb bg first run ret by simp
qed

theorem batch_isolates_malformed_file_witness:
  "file_records fixture_lib (init ''_'' 10) fixture_fs ''good.json''
     = Some (the (flatten_for_ai_search fixture_lib (init ''_'' 10) fixture_document)) \<and>
   file_records fixture_lib (init ''_'' 10) fixture_fs ''bad.json'' = None \<and>
   batch_run fixture_lib (init ''_'' 10) fixture_fs [''good.json'', ''bad.json''] False
     = \<lparr>flattened_documents = the (flatten_for_ai_search fixture_lib (init ''_'' 10) fixture_document),
        processed_count = 1, error_count = 1\<rparr> \<and>
   batch_run fixture_lib (init ''_'' 10) fixture_fs [''bad.json'', ''good.json''] False
     = \<lparr>flattened_documents = the (flatten_for_ai_search fixture_lib (init ''_'' 10) fixture_document),
        processed_count = 1, error_count = 1\<rparr> \<and>
   length (the (flatten_for_ai_search fixture_lib (init ''_'' 10) fixture_document)) = 3"
proof -
  have g: "file_records fixture_lib (init ''_'' 10) fixture_fs ''good.json''
     = Some (the (flatten_for_ai_search fixture_lib (init ''_'' 10) fixture_document))"
    by code_simp
  have b: "file_records fixture_lib (init ''_'' 10) fixture_fs ''bad.json'' = None"
    by code_simp
  have l: "length (the (flatten_for_ai_search fixture_lib (init ''_'' 10) fixture_document)) = 3"
    by code_simp
  show ?thesis using g b l batch_isolates_malformed_file [OF g b] by simp
qed

section \<open>Properties of get_document_statistics\<close>

lemma py_sub_num:
  assumes "num_val a = Some x" and "num_val b = Some y"
  shows "\<exists>r. py_sub a b = Inr r \<and> num_val r = Some (x - y)"
proof -
  consider (ii) i j where "int_val a = Some i" "int_val b = Some j"
    | (f) "int_val a = None \<or> int_val b = None"
    by (cases "int_val a"; cases "int_val b") auto
  then show ?thesis
  proof cases
    case ii
    have "x = of_int i" using ii(1) assms(1) by (cases a) (auto split: if_splits)
    moreover have "y = of_int j" using ii(2) assms(2) by (cases b) (auto split: if_splits)
    ultimately show ?thesis using ii by (simp add: py_sub_def)
  next
    case f
    then show ?thesis using assms by (auto simp: py_sub_def split: option.splits)
  qed
qed

lemma py_add_num:
  assumes "num_val a = Some x" and "num_val b = Some y"
  shows "\<exists>r. py_add a b = Inr r \<and> num_val r = Some (x + y)"
proof -
  consider (ii) i j where "int_val a = Some i" "int_val b = Some j"
    | (f) "int_val a = None \<or> int_val b = None"
    by (cases "int_val a"; cases "int_val b") auto
  then show ?thesis
  proof cases
    case ii
    have "x = of_int i" using ii(1) assms(1) by (cases a) (auto split: if_splits)
    moreover have "y = of_int j" using ii(2) assms(2) by (cases b) (auto split: if_splits)
    ultimately show ?thesis using ii by (simp add: py_add_def)
  next
    case f
    then show ?thesis using assms by (auto simp: py_add_def split: option.splits)
  qed
qed

lemma py_truediv_num:
  assumes "num_val a = Some x" and "0 < n"
  shows "py_truediv a n = Inr (JFloat (x / of_nat n))"
  using assms by (simp add: py_truediv_def)

lemma ChunkDocumentD:
  assumes "ChunkDocument doc"
  shows "\<exists>parent speaker t. map_of doc ''parentDocId'' = Some (JStr parent) \<and>
           map_of doc ''flattened_transcript'' = None \<and>
           map_of doc ''speaker'' = Some (JInt speaker) \<and> map_of doc ''text'' = Some (JStr t)"
  using assms unfolding ChunkDocument_def by (auto split: option.splits json.splits)

lemma offsetsD:
  assumes "offsets doc = Some (x, y)"
  shows "\<exists>s e. map_of doc ''start_offset'' = Some s \<and> map_of doc ''end_offset'' = Some e \<and>
           num_val s = Some x \<and> num_val e = Some y"
  using assms unfolding offsets_def by (auto split: option.splits)

lemma add_durations_step:
  assumes "offsets doc = Some (x, y)" and "num_val acc = Some t"
  shows "\<exists>acc'. add_durations acc (doc # docs) = add_durations acc' docs \<and>
           num_val acc' = Some (t + (y - x))"
proof -
  from offsetsD [OF assms(1)] obtain s e where
    s: "map_of doc ''start_offset'' = Some s" and e: "map_of doc ''end_offset'' = Some e"
    and ns: "num_val s = Some x" and ne: "num_val e = Some y"
    by blast
  from py_sub_num [OF ne ns] obtain d where d: "py_sub e s = Inr d" and nd: "num_val d = Some (y - x)"
    by blast
  from py_add_num [OF assms(2) nd] obtain acc' where
    t: "py_add acc d = Inr acc'" and nt: "num_val acc' = Some (t + (y - x))"
    by blast
  show ?thesis using d t nt by (auto simp: dict_get_def s e)
qed

lemma statistics_body_Inr:
  assumes "statistics_body docs = Inr stats" and "docs \<noteq> []"
  shows "map_of stats ''total_documents'' = Some (JInt (int (length docs))) \<and>
         map_of stats ''file_documents''
           = Some (JInt (int (length (filter (\<lambda>doc. ''flattened_transcript'' \<in> fst ` set doc) docs)))) \<and>
         map_of stats ''chunk_documents''
           = Some (JInt (int (length (filter (\<lambda>doc. ''parentDocId'' \<in> fst ` set doc) docs))))"
  using assms unfolding statistics_body_def Let_def
  by (auto simp: bind_err_Inr_iff)


text \<open>
  Claim C8. For a list of one file record and two chunk records with the offsets (0, 5)
  and (5, 12), given as integers or as floats, \<^verbatim>\<open>get_document_statistics\<close> reports a
  \<^verbatim>\<open>total_duration\<close> of value 12, an \<^verbatim>\<open>avg_chunk_duration\<close> of 6.0, 2 chunk documents and
  1 file document. In every result that is not the empty dictionary of the error path,
  \<^verbatim>\<open>file_documents\<close> counts the records that contain \<^verbatim>\<open>flattened_transcript\<close> and
  \<^verbatim>\<open>chunk_documents\<close> those that contain \<^verbatim>\<open>parentDocId\<close>.
\<close>
theorem statistics_of_one_file_two_chunks:
  assumes "FileDocument f" and "ChunkDocument c1" and "ChunkDocument c2"
    and "offsets c1 = Some (0, 5)" and "offsets c2 = Some (5, 12)"
  shows "(\<exists>v. map_of (get_document_statistics [f, c1, c2]) ''total_duration'' = Some v \<and>
              num_val v = Some 12) \<and>
         map_of (get_document_statistics [f, c1, c2]) ''avg_chunk_duration'' = Some (JFloat 6) \<and>
         map_of (get_document_statistics [f, c1, c2]) ''chunk_documents'' = Some (JInt 2) \<and>
         map_of (get_document_statistics [f, c1, c2]) ''file_documents'' = Some (JInt 1) \<and>
         (\<forall>docs. docs \<noteq> [] \<and> get_document_statistics docs \<noteq> [] \<longrightarrow>
            map_of (get_document_statistics docs) ''file_documents''
              = Some (JInt (int (length (filter (\<lambda>doc. ''flattened_transcript'' \<in> fst ` set doc) docs)))) \<and>
            map_of (get_document_statistics docs) ''chunk_documents''
              = Some (JInt (int (length (filter (\<lambda>doc. ''parentDocId'' \<in> fst ` set doc) docs)))))"
proof -
  from ChunkDocumentD [OF assms(2)] obtain p1 n1 t1 where
      c1: "map_of c1 ''parentDocId'' = Some (JStr p1)" "map_of c1 ''flattened_transcript'' = None"
          "map_of c1 ''speaker'' = Some (JInt n1)" "map_of c1 ''text'' = Some (JStr t1)"
    by blast
  from ChunkDocumentD [OF assms(3)] obtain p2 n2 t2 where
      c2: "map_of c2 ''parentDocId'' = Some (JStr p2)" "map_of c2 ''flattened_transcript'' = None"
          "map_of c2 ''speaker'' = Some (JInt n2)" "map_of c2 ''text'' = Some (JStr t2)"
    by blast
  have keys: "''flattened_transcript'' \<in> fst ` set f" "''parentDocId'' \<notin> fst ` set f"
    "''parentDocId'' \<in> fst ` set c1" "''flattened_transcript'' \<notin> fst ` set c1"
    "''parentDocId'' \<in> fst ` set c2" "''flattened_transcript'' \<notin> fst ` set c2"
    using assms(1) c1(1,2) c2(1,2) by (simp_all add: FileDocument_def mem_keys_iff)
  have zero: "num_val (JInt 0) = Some 0" by simp
  from add_durations_step [OF assms(4) zero, of "[c2]"] obtain a1 where
      s1: "add_durations (JInt 0) [c1, c2] = add_durations a1 [c2]" and n1: "num_val a1 = Some 5"
    by auto
  from add_durations_step [OF assms(5) n1, of "[]"] obtain a2 where
      s2: "add_durations a1 [c2] = Inr a2" and n2: "num_val a2 = Some 12"
    by auto
  have dur: "add_durations (JInt 0) [c1, c2] = Inr a2" by (simp only: s1 s2)
  have avg: "py_truediv a2 (Suc (Suc 0)) = Inr (JFloat 6)"
    using py_truediv_num [OF n2, of "Suc (Suc 0)"] by simp
  have body: "statistics_body [f, c1, c2] =
     Inr [(''total_documents'', JInt 3),
          (''file_documents'', JInt 1),
          (''chunk_documents'', JInt 2),
          (''unique_parent_docs'', JInt (int (length (List.insert (HStr p1) [HStr p2])))),
          (''total_text_length'', JInt (int (length t1 + length t2))),
          (''unique_speakers'', JInt (int (length (List.insert (HNum (of_int n1)) [HNum (of_int n2)])))),
          (''avg_chunk_duration'', JFloat 6),
          (''total_duration'', a2)]"
    unfolding statistics_body_def Let_def
    by (simp add: keys dict_get_def c1 c2 dur avg del: add_durations.simps)
  have fixture: "(\<exists>v. map_of (get_document_statistics [f, c1, c2]) ''total_duration'' = Some v \<and>
              num_val v = Some 12) \<and>
         map_of (get_document_statistics [f, c1, c2]) ''avg_chunk_duration'' = Some (JFloat 6) \<and>
         map_of (get_document_statistics [f, c1, c2]) ''chunk_documents'' = Some (JInt 2) \<and>
         map_of (get_document_statistics [f, c1, c2]) ''file_documents'' = Some (JInt 1)"
    by (simp add: get_document_statistics_def body n2)
  have general: "map_of (get_document_statistics docs) ''file_documents''
              = Some (JInt (int (length (filter (\<lambda>doc. ''flattened_transcript'' \<in> fst ` set doc) docs)))) \<and>
            map_of (get_document_statistics docs) ''chunk_documents''
              = Some (JInt (int (length (filter (\<lambda>doc. ''parentDocId'' \<in> fst ` set doc) docs))))"
    if "docs \<noteq> []" and "get_document_statistics docs \<noteq> []" for docs
  proof -
    from that(2) obtain stats where st: "statistics_body docs = Inr stats"
      by (cases "statistics_body docs") (auto simp: get_document_statistics_def)
    from statistics_body_Inr [OF st that(1)] show ?thesis
      by (simp add: get_document_statistics_def st)
  qed
  show ?thesis using fixture general by blast
qed

theorem statistics_of_one_file_two_chunks_witness:
  "FileDocument (hd (the (flatten_for_ai_search fixture_lib (init ''_'' 10) fixture_document))) \<and>
   ChunkDocument (the (flatten_for_ai_search fixture_lib (init ''_'' 10) fixture_document) ! 1) \<and>
   ChunkDocument (the (flatten_for_ai_search fixture_lib (init ''_'' 10) fixture_document) ! 2) \<and>
   offsets (the (flatten_for_ai_search fixture_lib (init ''_'' 10) fixture_document) ! 1) = Some (0, 5) \<and>
   offsets (the (flatten_for_ai_search fixture_lib (init ''_'' 10) fixture_document) ! 2) = Some (5, 12) \<and>
   map_of (get_document_statistics
       [hd (the (flatten_for_ai_search fixture_lib (init ''_'' 10) fixture_document)),
        the (flatten_for_ai_search fixture_lib (init ''_'' 10) fixture_document) ! 1,
        the (flatten_for_ai_search fixture_lib (init ''_'' 10) fixture_document) ! 2])
     ''avg_chunk_duration'' = Some (JFloat 6) \<and>
   map_of (get_document_statistics
       [hd (the (flatten_for_ai_search fixture_lib (init ''_'' 10) fixture_document)),
        the (flatten_for_ai_search fixture_lib (init ''_'' 10) fixture_document) ! 1,
        the (flatten_for_ai_search fixture_lib (init ''_'' 10) fixture_document) ! 2])
     ''chunk_documents'' = Some (JInt 2)"
proof -
  have f: "FileDocument (hd (the (flatten_for_ai_search fixture_lib (init ''_'' 10) fixture_document)))"
    by code_simp
  have c1: "ChunkDocument (the (flatten_for_ai_search fixture_lib (init ''_'' 10) fixture_document) ! 1)"
    by code_simp
  have c2: "ChunkDocument (the (flatten_for_ai_search fixture_lib (init ''_'' 10) fixture_document) ! 2)"
    by code_simp
  have o1: "offsets (the (flatten_for_ai_search fixture_lib (init ''_'' 10) fixture_document) ! 1) = Some (0, 5)"
    by code_simp
  have o2: "offsets (the (flatten_for_ai_search fixture_lib (init ''_'' 10) fixture_document) ! 2) = Some (5, 12)"
    by code_simp
  show ?thesis using f c1 c2 o1 o2 statistics_of_one_file_two_chunks [OF f c1 c2 o1 o2] by simp
qed

lemma statistics_of_fixture:
  "get_document_statistics (the (flatten_for_ai_search fixture_lib (init ''_'' 10) fixture_document))
     = [(''total_documents'', JInt 3), (''file_documents'', JInt 1),
        (''chunk_documents'', JInt 2), (''unique_parent_docs'', JInt 1),
        (''total_text_length'', JInt 18), (''unique_speakers'', JInt 2),
        (''avg_chunk_duration'', JFloat 6), (''total_duration'', JInt 12)]"
  by code_simp

end
